theory Spec2Isabelle
  imports Complex_Main
begin

section \<open>Rows of the hosted tables and JavaScript coercions\<close>

text \<open>
  The \<^verbatim>\<open>Database\<close> type of the row-store client declares the rows the components read.
  Only the columns read by the code modelled below are kept.  A nullable column is an
  \<open>option\<close>.  A JavaScript number is modelled as a real: the rows arrive as JSON, which
  carries neither NaN nor an infinity, every threshold the code compares with (1.5, 2.5,
  3, 3.5, 4, 4.5) is a binary fraction, and the sums, products and quotients the code forms
  are rounded as doubles are (next section).
\<close>

record feedback =
  row_id :: string
  sender_email :: string
  sender_name :: "string option"
  subject :: "string option"
  average_rating :: "real option"
  feedback_summary :: "string option"
  processed_at :: "string option"
  received_at :: string

record issue =
  issue_id :: string
  issue_title :: string
  created_at :: string

text \<open>\<^verbatim>\<open>Number(x)\<close> for \<^verbatim>\<open>x: number | null\<close>: \<^verbatim>\<open>Number(null)\<close> is 0.\<close>

definition Number :: "real option \<Rightarrow> real" where
  "Number x = (case x of None \<Rightarrow> 0 | Some r \<Rightarrow> r)"

text \<open>\<^verbatim>\<open>n || 0\<close> on a number: 0 is falsy, every other number is kept.\<close>

definition or0 :: "real \<Rightarrow> real" where
  "or0 n = (if n = 0 then 0 else n)"

text \<open>Truthiness of \<^verbatim>\<open>number | null\<close>: null and 0 are falsy.\<close>

definition truthy :: "real option \<Rightarrow> bool" where
  "truthy x = (case x of None \<Rightarrow> False | Some r \<Rightarrow> r \<noteq> 0)"

text \<open>\<^verbatim>\<open>x || 0\<close> for \<^verbatim>\<open>x: number | null\<close>.\<close>

definition rating_or0 :: "real option \<Rightarrow> real" where
  "rating_or0 x = (if truthy x then Number x else 0)"

text \<open>\<^verbatim>\<open>s || d\<close> for \<^verbatim>\<open>s: string | null\<close>: null and the empty string are falsy.\<close>

definition str_or :: "string option \<Rightarrow> string \<Rightarrow> string" where
  "str_or s d = (case s of None \<Rightarrow> d | Some t \<Rightarrow> if t = [] then d else t)"

section \<open>Double-precision arithmetic\<close>

text \<open>
  JavaScript's \<^verbatim>\<open>+\<close>, \<^verbatim>\<open>-\<close>, \<^verbatim>\<open>*\<close> and \<^verbatim>\<open>/\<close> on numbers are the operations of IEEE 754
  binary64: the exact result, rounded to the nearest double, to the one with an even
  significand on a tie.  A number is modelled as the real it stands for, and \<open>double x\<close>
  is the double nearest to \<open>x\<close>: with \<open>2\<^sup>e \<le> \<bar>x\<bar> < 2\<^sup>e\<^sup>+\<^sup>1\<close> the doubles around \<open>x\<close> are the
  multiples of \<open>2\<^sup>e\<^sup>-\<^sup>5\<^sup>2\<close>, and below \<open>2\<^sup>-\<^sup>1\<^sup>0\<^sup>2\<^sup>2\<close> the multiples of \<open>2\<^sup>-\<^sup>1\<^sup>0\<^sup>7\<^sup>4\<close>.  The
  model covers the finite doubles: a result of magnitude \<open>2\<^sup>1\<^sup>0\<^sup>2\<^sup>4\<close> or more, which
  JavaScript turns into an infinity, and the sign of a zero are outside it.  A rating of
  the data model lies between 0 and 5.
\<close>

text \<open>\<open>binade fuel x 0\<close> is the \<open>e\<close> with \<open>2\<^sup>e \<le> x < 2\<^sup>e\<^sup>+\<^sup>1\<close>, found in at most \<open>fuel\<close> steps.\<close>

fun binade :: "nat \<Rightarrow> real \<Rightarrow> int \<Rightarrow> int" where
  "binade 0 x e = e"
| "binade (Suc fuel) x e =
     (if 2 \<le> x then binade fuel (x / 2) (e + 1)
      else if x < 1 then binade fuel (x * 2) (e - 1)
      else e)"

definition pow2 :: "int \<Rightarrow> real" where
  "pow2 k = (if 0 \<le> k then 2 ^ nat k else 1 / 2 ^ nat (- k))"

text \<open>The spacing of the doubles around \<open>x\<close>.\<close>

definition ulp :: "real \<Rightarrow> real" where
  "ulp x = pow2 (max (binade 2200 \<bar>x\<bar> 0 - 52) (- 1074))"

text \<open>The nearest integer, the even one on a tie.\<close>

definition round_even :: "real \<Rightarrow> int" where
  "round_even x =
     (if x - of_int \<lfloor>x\<rfloor> < 1 / 2 then \<lfloor>x\<rfloor>
      else if 1 / 2 < x - of_int \<lfloor>x\<rfloor> then \<lfloor>x\<rfloor> + 1
      else if even \<lfloor>x\<rfloor> then \<lfloor>x\<rfloor> else \<lfloor>x\<rfloor> + 1)"

definition double :: "real \<Rightarrow> real" where
  "double x = (if x = 0 then 0 else of_int (round_even (x / ulp x)) * ulp x)"

definition js_add :: "real \<Rightarrow> real \<Rightarrow> real" where
  "js_add x y = double (x + y)"

definition js_sub :: "real \<Rightarrow> real \<Rightarrow> real" where
  "js_sub x y = double (x - y)"

definition js_mul :: "real \<Rightarrow> real \<Rightarrow> real" where
  "js_mul x y = double (x * y)"

text \<open>The code divides by the length of a list it has found not to be empty.\<close>

definition js_div :: "real \<Rightarrow> real \<Rightarrow> real" where
  "js_div x y = double (x / y)"

text \<open>
  \<^verbatim>\<open>Number(x.toFixed(1))\<close>: \<^verbatim>\<open>toFixed\<close> takes the sign off, picks the integer \<open>n\<close> with
  \<open>n / 10\<close> nearest to the magnitude (the larger one on a tie) and prints it with one
  decimal; \<^verbatim>\<open>Number\<close> reads the decimal back as the nearest double.  (Magnitudes from
  \<open>10\<^sup>2\<^sup>1\<close> on are printed in exponent form instead; an average of ratings is far below.)
\<close>

definition toFixed1 :: "real \<Rightarrow> real" where
  "toFixed1 x =
     (if x < 0 then double (- (of_int \<lfloor>(- x) * 10 + 1 / 2\<rfloor> / 10))
      else double (of_int \<lfloor>x * 10 + 1 / 2\<rfloor> / 10))"

section \<open>Aggregation: Analytics, EnhancedDashboardOverview, DashboardOverview\<close>

record slice =
  slice_name :: string
  slice_count :: nat
  slice_color :: string

text \<open>
  EnhancedDashboardOverview, \<^verbatim>\<open>analytics\<close>:
  \<^verbatim>\<open>positive = feedbacks.filter(f => (Number(f.average_rating) || 0) >= 4).length\<close>,
  \<^verbatim>\<open>neutral\<close> with \<^verbatim>\<open>rating >= 2.5 && rating < 4\<close>, \<^verbatim>\<open>negative\<close> with \<^verbatim>\<open>< 2.5\<close>.
\<close>

definition positive :: "feedback list \<Rightarrow> nat" where
  "positive feedbacks =
     length (filter (\<lambda>f. or0 (Number (average_rating f)) \<ge> 4) feedbacks)"

definition neutral :: "feedback list \<Rightarrow> nat" where
  "neutral feedbacks =
     length (filter (\<lambda>f. let rating = or0 (Number (average_rating f))
                          in rating \<ge> 2.5 \<and> rating < 4) feedbacks)"

definition negative :: "feedback list \<Rightarrow> nat" where
  "negative feedbacks =
     length (filter (\<lambda>f. or0 (Number (average_rating f)) < 2.5) feedbacks)"

text \<open>
  Analytics, \<^verbatim>\<open>chartData.sentimentData\<close>: the same three filters, as the \<^verbatim>\<open>value\<close>
  of three named pie slices.
\<close>

definition sentimentData :: "feedback list \<Rightarrow> slice list" where
  "sentimentData feedbacks =
     [\<lparr>slice_name = ''Positive'',
       slice_count = length (filter (\<lambda>f. or0 (Number (average_rating f)) \<ge> 4) feedbacks),
       slice_color = ''#00C49F''\<rparr>,
      \<lparr>slice_name = ''Neutral'',
       slice_count = length (filter (\<lambda>f. let rating = or0 (Number (average_rating f))
                                           in rating \<ge> 2.5 \<and> rating < 4) feedbacks),
       slice_color = ''#FFBB28''\<rparr>,
      \<lparr>slice_name = ''Negative'',
       slice_count = length (filter (\<lambda>f. or0 (Number (average_rating f)) < 2.5) feedbacks),
       slice_color = ''#FF8042''\<rparr>]"

text \<open>
  Analytics, \<^verbatim>\<open>stats.avgRating\<close>: \<^verbatim>\<open>stats\<close> is \<^verbatim>\<open>null\<close> for an empty list, else
  \<^verbatim>\<open>feedbacks.reduce((sum, f) => sum + (Number(f.average_rating) || 0), 0) / totalFeedback\<close>.
\<close>

definition avgRating :: "feedback list \<Rightarrow> real option" where
  "avgRating feedbacks =
     (if length feedbacks = 0 then None
      else Some (js_div (foldl (\<lambda>sum f. js_add sum (or0 (Number (average_rating f)))) 0 feedbacks)
                   (of_nat (length feedbacks))))"

text \<open>
  DashboardOverview, \<^verbatim>\<open>loadDashboardData\<close>:
  \<^verbatim>\<open>ratingsData = feedbackData?.filter(f => f.average_rating) || []\<close> and
  \<^verbatim>\<open>averageRating = ratingsData.length > 0
      ? ratingsData.reduce((sum, f) => sum + (f.average_rating || 0), 0) / ratingsData.length
      : 0\<close>.
  The fetched list can be \<^verbatim>\<open>null\<close>.
\<close>

definition ratingsData :: "feedback list option \<Rightarrow> feedback list" where
  "ratingsData feedbackData =
     (case feedbackData of
        None \<Rightarrow> []
      | Some fs \<Rightarrow> filter (\<lambda>f. truthy (average_rating f)) fs)"

definition averageRating :: "feedback list option \<Rightarrow> real" where
  "averageRating feedbackData =
     (if length (ratingsData feedbackData) > 0
      then js_div (foldl (\<lambda>sum f. js_add sum (rating_or0 (average_rating f))) 0
                     (ratingsData feedbackData))
             (of_nat (length (ratingsData feedbackData)))
      else 0)"

section \<open>The store: arrays and objects behind references\<close>

text \<open>
  The caller hands the aggregation a reference to an array of references to row objects.
  To say what the aggregation does to them, arrays and objects live in a store: a cell
  per array or object, addressed by its position, a new cell being added at the end.  The
  cells are the caller's arrays and rows and every array or object the code updates after
  creating it: the accumulator array of the time series and its items, the array of the
  weekly chart, the object that counts issue titles and the array of entries that is
  sorted in place.  An array or object that is created and only read afterwards is
  modelled as a plain value.
\<close>

type_synonym addr = nat

record point =
  point_date :: string
  point_count :: nat
  point_totalRating :: real
  point_avgRating :: real

record day =
  day_date :: string
  day_feedback :: nat
  day_avgRating :: real

datatype cell =
    ArrayCell "addr list"
  | FeedbackCell feedback
  | IssueCell issue
  | PointCell point
  | DaysCell "day list"
  | CountsCell "(string \<times> nat) list"
  | EntriesCell "(string \<times> nat) list"

type_synonym store = "cell list"

definition alloc :: "cell \<Rightarrow> store \<Rightarrow> addr \<times> store" where
  "alloc c h = (length h, h @ [c])"

definition cell_at :: "store \<Rightarrow> addr \<Rightarrow> cell option" where
  "cell_at h a = (if a < length h then Some (h ! a) else None)"

text \<open>Reading through a reference, by the kind of cell the code expects there.\<close>

definition array_at :: "store \<Rightarrow> addr \<Rightarrow> addr list" where
  "array_at h a = (case cell_at h a of Some (ArrayCell rs) \<Rightarrow> rs | _ \<Rightarrow> [])"

definition feedback_at :: "store \<Rightarrow> addr \<Rightarrow> feedback option" where
  "feedback_at h r = (case cell_at h r of Some (FeedbackCell f) \<Rightarrow> Some f | _ \<Rightarrow> None)"

definition issue_at :: "store \<Rightarrow> addr \<Rightarrow> issue option" where
  "issue_at h r = (case cell_at h r of Some (IssueCell i) \<Rightarrow> Some i | _ \<Rightarrow> None)"

definition point_at :: "store \<Rightarrow> addr \<Rightarrow> point option" where
  "point_at h r = (case cell_at h r of Some (PointCell p) \<Rightarrow> Some p | _ \<Rightarrow> None)"

definition days_at :: "store \<Rightarrow> addr \<Rightarrow> day list" where
  "days_at h a = (case cell_at h a of Some (DaysCell ds) \<Rightarrow> ds | _ \<Rightarrow> [])"

definition counts_at :: "store \<Rightarrow> addr \<Rightarrow> (string \<times> nat) list" where
  "counts_at h a = (case cell_at h a of Some (CountsCell kvs) \<Rightarrow> kvs | _ \<Rightarrow> [])"

definition entries_at :: "store \<Rightarrow> addr \<Rightarrow> (string \<times> nat) list" where
  "entries_at h a = (case cell_at h a of Some (EntriesCell es) \<Rightarrow> es | _ \<Rightarrow> [])"

text \<open>The rows, items and issues an array refers to, in the array's order.\<close>

definition rows_at :: "store \<Rightarrow> addr \<Rightarrow> feedback list" where
  "rows_at h a = List.map_filter (feedback_at h) (array_at h a)"

definition points_at :: "store \<Rightarrow> addr \<Rightarrow> point list" where
  "points_at h a = List.map_filter (point_at h) (array_at h a)"

definition issues_at :: "store \<Rightarrow> addr \<Rightarrow> issue list" where
  "issues_at h a = List.map_filter (issue_at h) (array_at h a)"

text \<open>
  \<^verbatim>\<open>array.reduce(callback, acc)\<close> where the callback returns the accumulator it was given
  and works by updating it: the length of the array is read once, each element is read
  from the store as it is when its turn comes, and the callback changes the store.
\<close>

definition reduce :: "(store \<Rightarrow> addr \<Rightarrow> store) \<Rightarrow> addr \<Rightarrow> store \<Rightarrow> store" where
  "reduce callback a h =
     foldl (\<lambda>h k. if k < length (array_at h a) then callback h (array_at h a ! k) else h)
       h [0..<length (array_at h a)]"

section \<open>Analytics: the chart data\<close>

text \<open>
  What the code asks of \<^verbatim>\<open>Date\<close> depends on the locale and the time zone of the browser
  and is a parameter: \<open>Date s\<close> is \<^verbatim>\<open>new Date(s)\<close>, \<open>toLocaleDateString d\<close> is
  \<^verbatim>\<open>d.toLocaleDateString()\<close>, \<open>toLocaleWeekday d\<close> is
  \<^verbatim>\<open>d.toLocaleDateString('en-US', { weekday: 'short' })\<close>, \<open>getHours d\<close> is
  \<^verbatim>\<open>d.getHours()\<close> (\<open>None\<close> for the NaN of an invalid date) and \<open>setDate_back d i\<close> is
  the copy \<^verbatim>\<open>new Date(d)\<close> after \<^verbatim>\<open>setDate(getDate() - i)\<close>.
\<close>

record 'd dates =
  Date :: "string \<Rightarrow> 'd"
  toLocaleDateString :: "'d \<Rightarrow> string"
  toLocaleWeekday :: "'d \<Rightarrow> string"
  getHours :: "'d \<Rightarrow> nat option"
  setDate_back :: "'d \<Rightarrow> nat \<Rightarrow> 'd"

text \<open>
  The callback of \<^verbatim>\<open>timeSeriesData = feedbacks.reduce((acc, feedback) => { ... }, [])\<close>:
  \<^verbatim>\<open>acc.find(item => item.date === date)\<close>, then either the three updates of the item
  found (\<^verbatim>\<open>count += 1\<close>, \<^verbatim>\<open>totalRating += Number(feedback.average_rating) || 0\<close>,
  \<^verbatim>\<open>avgRating = totalRating / count\<close>) or \<^verbatim>\<open>acc.push\<close> of a new item.
\<close>

definition timeSeries_callback :: "'d dates \<Rightarrow> addr \<Rightarrow> store \<Rightarrow> addr \<Rightarrow> store" where
  "timeSeries_callback env acc h r =
     (case feedback_at h r of
        None \<Rightarrow> h
      | Some feedback \<Rightarrow>
          (case find (\<lambda>p. case point_at h p of
                             None \<Rightarrow> False
                           | Some item \<Rightarrow>
                               point_date item
                                 = toLocaleDateString env (Date env (received_at feedback)))
                  (array_at h acc) of
             Some existing \<Rightarrow>
               (case point_at h existing of
                  None \<Rightarrow> h
                | Some item \<Rightarrow>
                    h[existing := PointCell
                        \<lparr>point_date = point_date item,
                         point_count = point_count item + 1,
                         point_totalRating =
                           js_add (point_totalRating item) (or0 (Number (average_rating feedback))),
                         point_avgRating =
                           js_div (js_add (point_totalRating item)
                                     (or0 (Number (average_rating feedback))))
                             (of_nat (point_count item + 1))\<rparr>])
           | None \<Rightarrow>
               (case alloc (PointCell
                       \<lparr>point_date = toLocaleDateString env (Date env (received_at feedback)),
                        point_count = 1,
                        point_totalRating = or0 (Number (average_rating feedback)),
                        point_avgRating = or0 (Number (average_rating feedback))\<rparr>) h of
                  (p, h') \<Rightarrow> h'[acc := ArrayCell (array_at h' acc @ [p])])))"

definition digit :: "nat \<Rightarrow> char" where
  "digit d = ''0123456789'' ! d"

text \<open>The decimal numeral of a natural number, as a template literal prints it.\<close>

fun decimal :: "nat \<Rightarrow> string" where
  "decimal n = (if n < 10 then [digit n] else decimal (n div 10) @ [digit (n mod 10)])"

record bar =
  bar_rating :: string
  bar_count :: nat

text \<open>
  \<^verbatim>\<open>[1, 2, 3, 4, 5].map(rating => ({ rating: `${rating} Star${rating > 1 ? 's' : ''}`,
  count: feedbacks.filter(f => { const avgRating = Number(f.average_rating) || 0;
  return Math.floor(avgRating) === rating || (rating === 5 && avgRating > 4.5) }).length }))\<close>
\<close>

definition ratingDistribution :: "feedback list \<Rightarrow> bar list" where
  "ratingDistribution feedbacks =
     map (\<lambda>rating.
            \<lparr>bar_rating = decimal rating @ '' Star'' @ (if rating > 1 then ''s'' else ''''),
             bar_count =
               length (filter (\<lambda>f. let avgRating = or0 (Number (average_rating f))
                                    in \<lfloor>avgRating\<rfloor> = int rating
                                         \<or> (rating = 5 \<and> avgRating > 4.5)) feedbacks)\<rparr>)
       [1, 2, 3, 4, 5]"

text \<open>
  One turn of \<^verbatim>\<open>for (let i = 6; i >= 0; i--)\<close>: the day \<open>i\<close> days before \<open>now\<close>, the rows
  received on it, and \<^verbatim>\<open>weeklyData.push\<close> of the day's count and average.
\<close>

definition weeklyData_turn :: "'d dates \<Rightarrow> 'd \<Rightarrow> addr \<Rightarrow> addr \<Rightarrow> store \<Rightarrow> nat \<Rightarrow> store" where
  "weeklyData_turn env now feedbacks weeklyData h i =
     (let date = setDate_back env now i;
          dateStr = toLocaleDateString env date;
          dayFeedbacks =
            filter (\<lambda>f. toLocaleDateString env (Date env (received_at f)) = dateStr)
              (rows_at h feedbacks)
      in h[weeklyData := DaysCell
             (days_at h weeklyData @
                [\<lparr>day_date = toLocaleWeekday env date,
                  day_feedback = length dayFeedbacks,
                  day_avgRating =
                    (if length dayFeedbacks > 0
                     then js_div (foldl (\<lambda>sum f. js_add sum (or0 (Number (average_rating f))))
                                    0 dayFeedbacks)
                            (of_nat (length dayFeedbacks))
                     else 0)\<rparr>])])"

record hour =
  hour_label :: string
  hour_count :: nat

text \<open>
  \<^verbatim>\<open>Array.from({ length: 24 }, (_, hour) => ({ hour: `${hour}:00`,
  count: feedbacks.filter(f => new Date(f.received_at).getHours() === hour).length }))\<close>
\<close>

definition hourlyData :: "'d dates \<Rightarrow> feedback list \<Rightarrow> hour list" where
  "hourlyData env feedbacks =
     map (\<lambda>hour.
            \<lparr>hour_label = decimal hour @ '':00'',
             hour_count =
               length (filter (\<lambda>f. getHours env (Date env (received_at f)) = Some hour)
                         feedbacks)\<rparr>)
       [0..<24]"

record chart =
  chart_timeSeriesData :: "point list"
  chart_sentimentData :: "slice list"
  chart_ratingDistribution :: "bar list"
  chart_weeklyData :: "day list"
  chart_hourlyData :: "hour list"

text \<open>
  \<^verbatim>\<open>chartData\<close>, the body of the \<^verbatim>\<open>useMemo\<close>: \<open>feedbacks\<close> is the reference to the fetched
  array, \<open>now\<close> what \<^verbatim>\<open>new Date()\<close> reads before the weekly loop.  The result is \<^verbatim>\<open>null\<close>
  for an array of length 0; otherwise it is the five charts, as the store holds them when
  the function returns, together with the store it leaves.
\<close>

definition chartData :: "'d dates \<Rightarrow> 'd \<Rightarrow> addr \<Rightarrow> store \<Rightarrow> chart option \<times> store" where
  "chartData env now feedbacks h =
     (if length (array_at h feedbacks) = 0 then (None, h)
      else
        (case alloc (ArrayCell []) h of
           (acc, h1) \<Rightarrow>
             (let h2 = reduce (timeSeries_callback env acc) feedbacks h1;
                  sentiment = sentimentData (rows_at h2 feedbacks);
                  distribution = ratingDistribution (rows_at h2 feedbacks)
              in (case alloc (DaysCell []) h2 of
                    (weeklyData, h3) \<Rightarrow>
                      (let h4 = foldl (weeklyData_turn env now feedbacks weeklyData) h3
                                  [6, 5, 4, 3, 2, 1, 0]
                       in (Some \<lparr>chart_timeSeriesData = points_at h4 acc,
                                  chart_sentimentData = sentiment,
                                  chart_ratingDistribution = distribution,
                                  chart_weeklyData = days_at h4 weeklyData,
                                  chart_hourlyData = hourlyData env (rows_at h4 feedbacks)\<rparr>,
                           h4))))))"

section \<open>DashboardOverview: the dashboard statistics\<close>

record recent =
  recent_id :: string
  recent_sender_name :: string
  recent_subject :: string
  recent_average_rating :: real
  recent_feedback_summary :: string
  recent_received_at :: string

text \<open>The callback of \<^verbatim>\<open>recentFeedback.map(f => ({ ... }))\<close>.\<close>

definition recentFeedback :: "feedback list \<Rightarrow> recent list" where
  "recentFeedback fs =
     map (\<lambda>f. \<lparr>recent_id = row_id f,
               recent_sender_name = str_or (sender_name f) ''Unknown Sender'',
               recent_subject = str_or (subject f) ''No Subject'',
               recent_average_rating = rating_or0 (average_rating f),
               recent_feedback_summary = str_or (feedback_summary f) ''No summary available'',
               recent_received_at = received_at f\<rparr>) fs"

text \<open>
  The callback of \<^verbatim>\<open>issuesData?.reduce((acc, issue) => {
  acc[issue.issue_title] = (acc[issue.issue_title] || 0) + 1; return acc }, {})\<close>: the
  count of a title the object has is raised, a new title is added after the others.
\<close>

fun increment :: "string \<Rightarrow> (string \<times> nat) list \<Rightarrow> (string \<times> nat) list" where
  "increment k [] = [(k, 1)]"
| "increment k ((k', c) # kvs) =
     (if k' = k then (k', c + 1) # kvs else (k', c) # increment k kvs)"

definition issueCounts_callback :: "addr \<Rightarrow> store \<Rightarrow> addr \<Rightarrow> store" where
  "issueCounts_callback acc h r =
     (case issue_at h r of
        None \<Rightarrow> h
      | Some issue \<Rightarrow> h[acc := CountsCell (increment (issue_title issue) (counts_at h acc))])"

text \<open>
  The accumulator \<^verbatim>\<open>{}\<close> inherits the properties of \<^verbatim>\<open>Object.prototype\<close>.  For a title
  that is one of their names \<^verbatim>\<open>acc[title]\<close> is not a count, and the ranking is then
  outside this model.
\<close>

definition Object_prototype :: "string list" where
  "Object_prototype =
     [''constructor'', ''__defineGetter__'', ''__defineSetter__'', ''hasOwnProperty'',
      ''__lookupGetter__'', ''__lookupSetter__'', ''isPrototypeOf'', ''propertyIsEnumerable'',
      ''toString'', ''valueOf'', ''__proto__'', ''toLocaleString'']"

text \<open>
  \<^verbatim>\<open>Object.entries\<close> lists the keys that are array indices first, in ascending order,
  then the other keys in the order of their creation.  An array index is the decimal
  numeral, without a leading zero, of a number up to \<open>2\<^sup>3\<^sup>2 - 2\<close>.
\<close>

definition digit_value :: "char \<Rightarrow> nat" where
  "digit_value c = length (takeWhile (\<lambda>d. d \<noteq> c) ''0123456789'')"

definition array_index :: "string \<Rightarrow> nat option" where
  "array_index s =
     (if s \<noteq> [] \<and> list_all (\<lambda>c. c \<in> set ''0123456789'') s
         \<and> (s = ''0'' \<or> hd s \<noteq> CHR ''0'')
         \<and> foldl (\<lambda>n c. 10 * n + digit_value c) 0 s \<le> 4294967294
      then Some (foldl (\<lambda>n c. 10 * n + digit_value c) 0 s)
      else None)"

definition own_entries :: "(string \<times> nat) list \<Rightarrow> (string \<times> nat) list" where
  "own_entries kvs =
     sort_key (\<lambda>(k, c). case array_index k of Some i \<Rightarrow> i | None \<Rightarrow> 0)
       (filter (\<lambda>(k, c). array_index k \<noteq> None) kvs)
     @ filter (\<lambda>(k, c). array_index k = None) kvs"

text \<open>
  \<^verbatim>\<open>issueCounts\<close> and \<^verbatim>\<open>topIssues = Object.entries(issueCounts)
  .map(([title, count]) => ({ title, count })).sort((a, b) => b.count - a.count).slice(0, 3)\<close>:
  \<^verbatim>\<open>map\<close> makes the array that \<^verbatim>\<open>sort\<close> then sorts in place, keeping the order of equal
  counts; \<open>issuesData\<close> is the reference to the fetched array, or \<^verbatim>\<open>null\<close>.
\<close>

definition topIssues :: "addr option \<Rightarrow> store \<Rightarrow> (string \<times> nat) list option \<times> store" where
  "topIssues issuesData h =
     (case alloc (CountsCell []) h of
        (acc, h1) \<Rightarrow>
          (let h2 = (case issuesData of
                       None \<Rightarrow> h1
                     | Some a \<Rightarrow> reduce (issueCounts_callback acc) a h1)
           in (case alloc (EntriesCell (own_entries (counts_at h2 acc))) h2 of
                 (entries, h3) \<Rightarrow>
                   (let h4 = h3[entries := EntriesCell
                                  (sort_key (\<lambda>(title, count). - int count)
                                     (entries_at h3 entries))]
                    in (if list_ex (\<lambda>(title, count). title \<in> set Object_prototype)
                             (counts_at h2 acc)
                        then None
                        else Some (take 3 (entries_at h4 entries)),
                        h4)))))"

record trend =
  trend_date :: string
  trend_rating :: real

record dashboard_stats =
  totalFeedback :: nat
  stats_averageRating :: real
  weeklyChange :: real
  monthlyChange :: real
  sentimentDistribution :: "slice list"
  ratingTrends :: "trend list"
  stats_topIssues :: "(string \<times> nat) list option"
  stats_recentFeedback :: "recent list"

text \<open>
  The statistics \<^verbatim>\<open>loadDashboardData\<close> passes to \<^verbatim>\<open>setStats\<close> once its fetches have
  returned, and the store it leaves.  \<open>feedbackData\<close> and \<open>issuesData\<close> are the references
  to the fetched arrays, or \<^verbatim>\<open>null\<close>; \<open>count\<close> is the exact row count the first query
  returned.  \<^verbatim>\<open>Math.random()\<close> and \<^verbatim>\<open>Date.now()\<close> are inputs: \<open>rnd k\<close> is what the \<open>k\<close>-th
  call of \<^verbatim>\<open>Math.random\<close> returns and \<open>now k\<close> what the \<open>k\<close>-th call of \<^verbatim>\<open>Date.now\<close>
  returns (milliseconds); the seven callbacks of \<^verbatim>\<open>Array.from\<close> make calls 0 to 6 of
  both, then \<^verbatim>\<open>weeklyChange\<close> and \<^verbatim>\<open>monthlyChange\<close> make calls 7 and 8 of \<^verbatim>\<open>Math.random\<close>.
  \<open>fmt\<close> is \<^verbatim>\<open>toLocaleDateString('en-US', { month: 'short', day: 'numeric' })\<close> of a
  millisecond time stamp.  The first five references are taken before the issues are
  counted, and the rows behind them are read when the statistics are put together.
\<close>

definition loadDashboardData ::
  "(nat \<Rightarrow> real) \<Rightarrow> (nat \<Rightarrow> int) \<Rightarrow> (int \<Rightarrow> string) \<Rightarrow> nat option
     \<Rightarrow> addr option \<Rightarrow> addr option \<Rightarrow> store \<Rightarrow> dashboard_stats \<times> store" where
  "loadDashboardData rnd now fmt count feedbackData issuesData h =
     (let recentRefs = (case feedbackData of None \<Rightarrow> [] | Some a \<Rightarrow> take 5 (array_at h a));
          average = averageRating (map_option (rows_at h) feedbackData);
          trends = map (\<lambda>i. \<lparr>trend_date = fmt (now i - (6 - int i) * 24 * 60 * 60 * 1000),
                             trend_rating = js_add (js_mul (rnd i) 2) 3\<rparr>) [0..<7]
      in (case topIssues issuesData h of
            (ranking, h') \<Rightarrow>
              (\<lparr>totalFeedback = (case count of None \<Rightarrow> 0 | Some c \<Rightarrow> c),
                stats_averageRating = toFixed1 average,
                weeklyChange = js_sub (js_mul (rnd 7) 20) 10,
                monthlyChange = js_sub (js_mul (rnd 8) 30) 15,
                sentimentDistribution =
                  [\<lparr>slice_name = ''Positive'', slice_count = 45, slice_color = ''#22c55e''\<rparr>,
                   \<lparr>slice_name = ''Neutral'', slice_count = 35, slice_color = ''#f59e0b''\<rparr>,
                   \<lparr>slice_name = ''Negative'', slice_count = 20, slice_color = ''#ef4444''\<rparr>],
                ratingTrends = trends,
                stats_topIssues = ranking,
                stats_recentFeedback = recentFeedback (List.map_filter (feedback_at h') recentRefs)\<rparr>,
               h')))"

section \<open>The charts and the ranking as functions of the rows\<close>

text \<open>
  What the store-passing functions above return, written as functions of the rows and
  issues alone; the theorems below prove that this is what they return.
\<close>

fun add_point :: "string \<Rightarrow> real \<Rightarrow> point list \<Rightarrow> point list" where
  "add_point date r [] =
     [\<lparr>point_date = date, point_count = 1, point_totalRating = r, point_avgRating = r\<rparr>]"
| "add_point date r (item # items) =
     (if point_date item = date
      then \<lparr>point_date = point_date item,
            point_count = point_count item + 1,
            point_totalRating = js_add (point_totalRating item) r,
            point_avgRating =
              js_div (js_add (point_totalRating item) r) (of_nat (point_count item + 1))\<rparr>
           # items
      else item # add_point date r items)"

definition timeSeries_of :: "'d dates \<Rightarrow> feedback list \<Rightarrow> point list" where
  "timeSeries_of env rows =
     foldl (\<lambda>items f. add_point (toLocaleDateString env (Date env (received_at f)))
                          (or0 (Number (average_rating f))) items) [] rows"

definition day_of :: "'d dates \<Rightarrow> 'd \<Rightarrow> feedback list \<Rightarrow> nat \<Rightarrow> day" where
  "day_of env now rows i =
     \<lparr>day_date = toLocaleWeekday env (setDate_back env now i),
      day_feedback =
        length (filter (\<lambda>f. toLocaleDateString env (Date env (received_at f))
                               = toLocaleDateString env (setDate_back env now i)) rows),
      day_avgRating =
        (if length (filter (\<lambda>f. toLocaleDateString env (Date env (received_at f))
                               = toLocaleDateString env (setDate_back env now i)) rows) > 0
         then js_div (foldl (\<lambda>sum f. js_add sum (or0 (Number (average_rating f)))) 0
                        (filter (\<lambda>f. toLocaleDateString env (Date env (received_at f))
                               = toLocaleDateString env (setDate_back env now i)) rows))
                (of_nat (length (filter (\<lambda>f. toLocaleDateString env (Date env (received_at f))
                               = toLocaleDateString env (setDate_back env now i)) rows)))
         else 0)\<rparr>"

definition chart_of :: "'d dates \<Rightarrow> 'd \<Rightarrow> feedback list \<Rightarrow> chart" where
  "chart_of env now rows =
     \<lparr>chart_timeSeriesData = timeSeries_of env rows,
      chart_sentimentData = sentimentData rows,
      chart_ratingDistribution = ratingDistribution rows,
      chart_weeklyData = map (day_of env now rows) [6, 5, 4, 3, 2, 1, 0],
      chart_hourlyData = hourlyData env rows\<rparr>"

definition issueCounts_of :: "issue list \<Rightarrow> (string \<times> nat) list" where
  "issueCounts_of issues = foldl (\<lambda>kvs i. increment (issue_title i) kvs) [] issues"

definition topIssues_of :: "issue list \<Rightarrow> (string \<times> nat) list option" where
  "topIssues_of issues =
     (if list_ex (\<lambda>(title, count). title \<in> set Object_prototype) (issueCounts_of issues)
      then None
      else Some (take 3 (sort_key (\<lambda>(title, count). - int count)
                           (own_entries (issueCounts_of issues)))))"

text \<open>The store while the time series is accumulated: the caller's cells, then the
  accumulator array, then the items made so far, each referred to once by the array.\<close>

definition series_store :: "store \<Rightarrow> store \<Rightarrow> bool" where
  "series_store h0 h \<longleftrightarrow>
     (\<exists>rs pts. h = h0 @ ArrayCell rs # map PointCell pts \<and> distinct rs
        \<and> (\<forall>p\<in>set rs. length h0 < p \<and> p < length h))"

definition dashboard_of ::
  "(nat \<Rightarrow> real) \<Rightarrow> (nat \<Rightarrow> int) \<Rightarrow> (int \<Rightarrow> string) \<Rightarrow> nat option
     \<Rightarrow> feedback list option \<Rightarrow> feedback list \<Rightarrow> issue list \<Rightarrow> dashboard_stats" where
  "dashboard_of rnd now fmt count rows firstRows issues =
     \<lparr>totalFeedback = (case count of None \<Rightarrow> 0 | Some c \<Rightarrow> c),
      stats_averageRating = toFixed1 (averageRating rows),
      weeklyChange = js_sub (js_mul (rnd 7) 20) 10,
      monthlyChange = js_sub (js_mul (rnd 8) 30) 15,
      sentimentDistribution =
        [\<lparr>slice_name = ''Positive'', slice_count = 45, slice_color = ''#22c55e''\<rparr>,
         \<lparr>slice_name = ''Neutral'', slice_count = 35, slice_color = ''#f59e0b''\<rparr>,
         \<lparr>slice_name = ''Negative'', slice_count = 20, slice_color = ''#ef4444''\<rparr>],
      ratingTrends =
        map (\<lambda>i. \<lparr>trend_date = fmt (now i - (6 - int i) * 24 * 60 * 60 * 1000),
                  trend_rating = js_add (js_mul (rnd i) 2) 3\<rparr>) [0..<7],
      stats_topIssues = topIssues_of issues,
      stats_recentFeedback = recentFeedback firstRows\<rparr>"

text \<open>The rows behind the first five references of an array, and the issues of an array
  that may be missing.\<close>

definition first_rows :: "store \<Rightarrow> addr option \<Rightarrow> feedback list" where
  "first_rows h feedbackData =
     (case feedbackData of
        None \<Rightarrow> []
      | Some a \<Rightarrow> List.map_filter (feedback_at h) (take 5 (array_at h a)))"

definition issues_of :: "store \<Rightarrow> addr option \<Rightarrow> issue list" where
  "issues_of h issuesData = (case issuesData of None \<Rightarrow> [] | Some a \<Rightarrow> issues_at h a)"

section \<open>FeedbackManagement: filters, pagination, sentiment badge\<close>

datatype badge = NotRated | Positive | Neutral | Negative

text \<open>
  \<^verbatim>\<open>getSentimentBadge(rating: number | null)\<close>: \<^verbatim>\<open>if (!rating)\<close> takes null and 0, then
  \<^verbatim>\<open>>= 4\<close>, \<^verbatim>\<open>>= 2.5\<close>, else.
\<close>

definition getSentimentBadge :: "real option \<Rightarrow> badge" where
  "getSentimentBadge rating =
     (if \<not> truthy rating then NotRated
      else if Number rating \<ge> 4 then Positive
      else if Number rating \<ge> 2.5 then Neutral
      else Negative)"

text \<open>
  The component's state: \<^verbatim>\<open>useState('')\<close>, \<^verbatim>\<open>useState('all')\<close>, \<^verbatim>\<open>useState('all')\<close>,
  \<^verbatim>\<open>useState(1)\<close>.
\<close>

record fm_state =
  searchTerm :: string
  ratingFilter :: string
  dateFilter :: string
  currentPage :: int

definition fm_initial :: fm_state where
  "fm_initial = \<lparr>searchTerm = '''', ratingFilter = ''all'', dateFilter = ''all'', currentPage = 1\<rparr>"

text \<open>
  The handlers of the three filter controls:
  \<^verbatim>\<open>onChange={(e) => setSearchTerm(e.target.value)}\<close>,
  \<^verbatim>\<open>onValueChange={setRatingFilter}\<close>, \<^verbatim>\<open>onValueChange={setDateFilter}\<close>.
\<close>

definition setSearchTerm :: "string \<Rightarrow> fm_state \<Rightarrow> fm_state" where
  "setSearchTerm v s = s\<lparr>searchTerm := v\<rparr>"

definition setRatingFilter :: "string \<Rightarrow> fm_state \<Rightarrow> fm_state" where
  "setRatingFilter v s = s\<lparr>ratingFilter := v\<rparr>"

definition setDateFilter :: "string \<Rightarrow> fm_state \<Rightarrow> fm_state" where
  "setDateFilter v s = s\<lparr>dateFilter := v\<rparr>"

text \<open>
  The Clear Filters button: \<^verbatim>\<open>setSearchTerm(''); setRatingFilter('all');
  setDateFilter('all'); setCurrentPage(1)\<close>.
\<close>

definition onClearFilters :: "fm_state \<Rightarrow> fm_state" where
  "onClearFilters s =
     s\<lparr>searchTerm := '''', ratingFilter := ''all'', dateFilter := ''all'', currentPage := 1\<rparr>"

text \<open>A change of one of the three filter fields, dispatched to that field's handler.\<close>

datatype filter_change = SearchTerm string | RatingFilter string | DateFilter string

fun changeFilter :: "filter_change \<Rightarrow> fm_state \<Rightarrow> fm_state" where
  "changeFilter (SearchTerm v) s = setSearchTerm v s"
| "changeFilter (RatingFilter v) s = setRatingFilter v s"
| "changeFilter (DateFilter v) s = setDateFilter v s"

definition ITEMS_PER_PAGE :: nat where
  "ITEMS_PER_PAGE = 10"

text \<open>
  The query's result: \<^verbatim>\<open>totalCount: count || 0\<close> and
  \<^verbatim>\<open>totalPages: Math.ceil((count || 0) / ITEMS_PER_PAGE)\<close>, where \<^verbatim>\<open>count\<close> is the exact
  row count of the row store or \<^verbatim>\<open>null\<close>.  Before the first result arrives both default
  to 0 (\<^verbatim>\<open>const { feedbacks = [], totalCount = 0, totalPages = 0 } = feedbackData || {}\<close>).
\<close>

definition totalCount :: "nat option \<Rightarrow> nat" where
  "totalCount count = (case count of None \<Rightarrow> 0 | Some c \<Rightarrow> c)"

definition totalPages :: "nat option \<Rightarrow> int" where
  "totalPages count = \<lceil>real (totalCount count) / real ITEMS_PER_PAGE\<rceil>"

text \<open>
  The query's window: \<^verbatim>\<open>from = (currentPage - 1) * ITEMS_PER_PAGE\<close>,
  \<^verbatim>\<open>to = from + ITEMS_PER_PAGE - 1\<close>.
\<close>

definition page_range :: "fm_state \<Rightarrow> int \<times> int" where
  "page_range s =
     ((currentPage s - 1) * int ITEMS_PER_PAGE,
      (currentPage s - 1) * int ITEMS_PER_PAGE + int ITEMS_PER_PAGE - 1)"

text \<open>
  The pagination controls, rendered when \<^verbatim>\<open>totalPages > 1\<close>:
  Previous is \<^verbatim>\<open>setCurrentPage(prev => Math.max(1, prev - 1))\<close>, disabled when
  \<^verbatim>\<open>currentPage === 1\<close>; Next is \<^verbatim>\<open>setCurrentPage(prev => Math.min(totalPages, prev + 1))\<close>,
  disabled when \<^verbatim>\<open>currentPage === totalPages\<close>.
\<close>

definition paginationShown :: "int \<Rightarrow> bool" where
  "paginationShown pages = (pages > 1)"

definition previousPage :: "fm_state \<Rightarrow> fm_state" where
  "previousPage s = s\<lparr>currentPage := max 1 (currentPage s - 1)\<rparr>"

definition nextPage :: "int \<Rightarrow> fm_state \<Rightarrow> fm_state" where
  "nextPage pages s = s\<lparr>currentPage := min pages (currentPage s + 1)\<rparr>"

definition previousDisabled :: "fm_state \<Rightarrow> bool" where
  "previousDisabled s = (currentPage s = 1)"

definition nextDisabled :: "int \<Rightarrow> fm_state \<Rightarrow> bool" where
  "nextDisabled pages s = (currentPage s = pages)"

section \<open>Rating filters of the two search screens\<close>

text \<open>
  Both query functions add comparisons on the column \<^verbatim>\<open>average_rating\<close> to the query:
  \<^verbatim>\<open>query.gte('average_rating', b)\<close> and \<^verbatim>\<open>query.lt('average_rating', b)\<close>.  The row
  store keeps the rows for which every comparison holds; a comparison with a null rating
  does not hold.
\<close>

datatype cmp = Gte real | Lt real

fun cmp_holds :: "real option \<Rightarrow> cmp \<Rightarrow> bool" where
  "cmp_holds None c = False"
| "cmp_holds (Some r) (Gte b) = (b \<le> r)"
| "cmp_holds (Some r) (Lt b) = (r < b)"

definition selected :: "cmp list \<Rightarrow> real option \<Rightarrow> bool" where
  "selected cs r = list_all (cmp_holds r) cs"

text \<open>AdvancedSearch, \<^verbatim>\<open>if (filters.rating !== 'all') { ... }\<close>.\<close>

definition search_rating_filter :: "string \<Rightarrow> cmp list" where
  "search_rating_filter rating =
     (if rating \<noteq> ''all'' then
        (if rating = ''5'' then [Gte 4.5]
         else if rating = ''4'' then [Gte 3.5, Lt 4.5]
         else if rating = ''3'' then [Gte 2.5, Lt 3.5]
         else if rating = ''2'' then [Gte 1.5, Lt 2.5]
         else if rating = ''1'' then [Lt 1.5]
         else [])
      else [])"

text \<open>FeedbackManagement, \<^verbatim>\<open>if (ratingFilter !== 'all') { ... }\<close>.\<close>

definition management_rating_filter :: "string \<Rightarrow> cmp list" where
  "management_rating_filter selector =
     (if selector \<noteq> ''all'' then
        (if selector = ''4+'' then [Gte 4]
         else if selector = ''3+'' then [Gte 3, Lt 4]
         else if selector = ''2+'' then [Gte 2, Lt 3]
         else if selector = ''1+'' then [Lt 2]
         else [])
      else [])"

section \<open>AdvancedSearch: the filter record and the query gate\<close>

record SearchFilters =
  query :: string
  rating :: string
  dateRange :: string
  sender :: string
  sortBy :: string
  sortOrder :: string
  category :: string

definition initialFilters :: SearchFilters where
  "initialFilters =
     \<lparr>query = '''', rating = ''all'', dateRange = ''all'', sender = '''',
      sortBy = ''received_at'', sortOrder = ''desc'', category = ''all''\<rparr>"

text \<open>\<^verbatim>\<open>Object.entries(filters)\<close> and \<^verbatim>\<open>Object.values(filters)\<close>, in the order of the keys.\<close>

definition Object_entries :: "SearchFilters \<Rightarrow> (string \<times> string) list" where
  "Object_entries filters =
     [(''query'', query filters), (''rating'', rating filters),
      (''dateRange'', dateRange filters), (''sender'', sender filters),
      (''sortBy'', sortBy filters), (''sortOrder'', sortOrder filters),
      (''category'', category filters)]"

definition Object_values :: "SearchFilters \<Rightarrow> string list" where
  "Object_values filters = map snd (Object_entries filters)"

text \<open>
  The gate of the search query:
  \<^verbatim>\<open>enabled: Object.values(filters).some(v => v !== '' && v !== 'all')\<close>.
\<close>

definition enabled :: "SearchFilters \<Rightarrow> bool" where
  "enabled filters = list_ex (\<lambda>v. v \<noteq> '''' \<and> v \<noteq> ''all'') (Object_values filters)"

text \<open>
  The badge on the Filters button:
  \<^verbatim>\<open>Object.entries(filters).filter(([key, value]) =>
      value !== '' && value !== 'all' && key !== 'sortBy' && key !== 'sortOrder').length\<close>.
\<close>

definition activeFiltersCount :: "SearchFilters \<Rightarrow> nat" where
  "activeFiltersCount filters =
     length (filter (\<lambda>(key, v). v \<noteq> '''' \<and> v \<noteq> ''all'' \<and> key \<noteq> ''sortBy'' \<and> key \<noteq> ''sortOrder'')
               (Object_entries filters))"

section \<open>RealTimeNotifications\<close>

datatype notification_type = feedback_type | issue_type | team_type | system_type

datatype priority_level = low | medium | high

record notification =
  notification_id :: string
  type :: notification_type
  title :: string
  message :: string
  timestamp :: int
  read :: bool
  priority :: priority_level

text \<open>
  An insert event of the change feed carries the new row; \<open>date\<close> is what \<^verbatim>\<open>new Date()\<close>
  reads when the handler runs.
\<close>

datatype insert_event = FeedbackInsert feedback int | IssueInsert issue int

fun newNotification :: "insert_event \<Rightarrow> notification" where
  "newNotification (FeedbackInsert new date) =
     \<lparr>notification_id = row_id new,
      type = feedback_type,
      title = ''New Feedback Received'',
      message = ''From '' @ str_or (sender_name new) (sender_email new),
      timestamp = date,
      read = False,
      priority = (if Number (average_rating new) < 3 then high else medium)\<rparr>"
| "newNotification (IssueInsert new date) =
     \<lparr>notification_id = issue_id new,
      type = issue_type,
      title = ''New Issue Created'',
      message = issue_title new,
      timestamp = date,
      read = False,
      priority = high\<rparr>"

text \<open>
  Both handlers end with
  \<^verbatim>\<open>setNotifications(prev => [newNotification, ...prev.slice(0, 9)])\<close>.
\<close>

definition on_insert :: "notification list \<Rightarrow> insert_event \<Rightarrow> notification list" where
  "on_insert prev e = newNotification e # take 9 prev"

text \<open>The list starts empty (\<^verbatim>\<open>useState<Notification[]>([])\<close>); events arrive in order.\<close>

definition notifications_after :: "insert_event list \<Rightarrow> notification list" where
  "notifications_after events = foldl on_insert [] events"

section \<open>The quantities the specification speaks of\<close>

text \<open>
  The specification's sentences on the sentiment buckets and on the rating average count
  the rows whose rating is present and average the ratings that are present.  These
  definitions follow the specification's words, not the code; the theorems compare them
  with the code.
\<close>

definition rated_count :: "feedback list \<Rightarrow> nat" where
  "rated_count fs = length (filter (\<lambda>f. average_rating f \<noteq> None) fs)"

definition unrated_count :: "feedback list \<Rightarrow> nat" where
  "unrated_count fs = length (filter (\<lambda>f. average_rating f = None) fs)"

definition present_ratings :: "feedback list \<Rightarrow> real list" where
  "present_ratings fs =
     concat (map (\<lambda>f. case average_rating f of None \<Rightarrow> [] | Some r \<Rightarrow> [r]) fs)"

definition mean :: "real list \<Rightarrow> real" where
  "mean xs = sum_list xs / of_nat (length xs)"

text \<open>The present ratings that are not 0: the ones JavaScript's truthiness keeps.\<close>

definition nonzero_ratings :: "feedback list \<Rightarrow> real list" where
  "nonzero_ratings fs = filter (\<lambda>r. r \<noteq> 0) (present_ratings fs)"

section \<open>Concrete inputs\<close>

definition unrated_row :: feedback where
  "unrated_row =
     \<lparr>row_id = ''f-unrated'', sender_email = ''ann@example.org'', sender_name = None,
      subject = None, average_rating = None, feedback_summary = None,
      processed_at = None, received_at = ''2025-01-01T00:00:00Z''\<rparr>"

definition rated_row :: "real \<Rightarrow> feedback" where
  "rated_row r = unrated_row\<lparr>row_id := ''f-rated'', average_rating := Some r\<rparr>"

definition on_page :: "int \<Rightarrow> fm_state" where
  "on_page p = fm_initial\<lparr>currentPage := p\<rparr>"

text \<open>
  A store of the caller: an array of two rows, one rated 4 and one unrated, both received
  on 1 January 2025, and an array of one issue.
\<close>

definition login_issue :: issue where
  "login_issue =
     \<lparr>issue_id = ''i-login'', issue_title = ''Login'', created_at = ''2025-01-01T00:00:00Z''\<rparr>"

definition caller_store :: store where
  "caller_store =
     [ArrayCell [1, 2], FeedbackCell (rated_row 4), FeedbackCell unrated_row,
      ArrayCell [4], IssueCell login_issue]"

text \<open>
  Dates as milliseconds since 1970, as a browser with the locale \<^verbatim>\<open>en-US\<close> in the time
  zone UTC prints them on the nine days from 25 December 2024 to 2 January 2025.
\<close>

definition en_US_date :: "int \<Rightarrow> string" where
  "en_US_date t =
     (let d = t div 86400000 in
      if d = 20082 then ''12/25/2024'' else if d = 20083 then ''12/26/2024''
      else if d = 20084 then ''12/27/2024'' else if d = 20085 then ''12/28/2024''
      else if d = 20086 then ''12/29/2024'' else if d = 20087 then ''12/30/2024''
      else if d = 20088 then ''12/31/2024'' else if d = 20089 then ''1/1/2025''
      else if d = 20090 then ''1/2/2025'' else ''another day'')"

definition en_US_weekday :: "int \<Rightarrow> string" where
  "en_US_weekday t =
     (let d = t div 86400000 in
      if d = 20082 then ''Wed'' else if d = 20083 then ''Thu''
      else if d = 20084 then ''Fri'' else if d = 20085 then ''Sat''
      else if d = 20086 then ''Sun'' else if d = 20087 then ''Mon''
      else if d = 20088 then ''Tue'' else if d = 20089 then ''Wed''
      else if d = 20090 then ''Thu'' else ''another day'')"

definition en_US_short :: "int \<Rightarrow> string" where
  "en_US_short t =
     (let d = t div 86400000 in
      if d = 20082 then ''Dec 25'' else if d = 20083 then ''Dec 26''
      else if d = 20084 then ''Dec 27'' else if d = 20085 then ''Dec 28''
      else if d = 20086 then ''Dec 29'' else if d = 20087 then ''Dec 30''
      else if d = 20088 then ''Dec 31'' else if d = 20089 then ''Jan 1''
      else if d = 20090 then ''Jan 2'' else ''another day'')"

definition new_year :: int where
  "new_year = 1735689600000"

definition utc_dates :: "int dates" where
  "utc_dates =
     \<lparr>Date = (\<lambda>s. if s = ''2025-01-01T00:00:00Z'' then new_year else 0),
      toLocaleDateString = en_US_date,
      toLocaleWeekday = en_US_weekday,
      getHours = (\<lambda>t. Some (nat ((t div 3600000) mod 24))),
      setDate_back = (\<lambda>t i. t - int i * 86400000)\<rparr>"

text \<open>Two runs of \<^verbatim>\<open>Math.random\<close> and a clock that stands at the start of 2025.\<close>

definition draws_zero :: "nat \<Rightarrow> real" where
  "draws_zero k = 0"

definition draws_half :: "nat \<Rightarrow> real" where
  "draws_half k = 1 / 2"

definition clock_fixed :: "nat \<Rightarrow> int" where
  "clock_fixed k = new_year"

definition next_day :: int where
  "next_day = new_year + 86400000"

text \<open>The day names along the weekly chart.\<close>

definition weekdays :: "chart option \<Rightarrow> string list" where
  "weekdays c = (case c of None \<Rightarrow> [] | Some c \<Rightarrow> map day_date (chart_weeklyData c))"

section \<open>Sentiment buckets\<close>

lemma or0_id: "or0 n = n"
  by (simp add: or0_def)

lemma buckets_sum: "positive fs + neutral fs + negative fs = length fs"
proof (induction fs)
  case Nil
  show ?case by (simp add: positive_def neutral_def negative_def)
next
  case (Cons f fs)
  then show ?case
    by (simp add: positive_def neutral_def negative_def Let_def or0_id)
qed

lemma rated_unrated_count: "rated_count fs + unrated_count fs = length fs"
  using sum_length_filter_compl [of "\<lambda>f. average_rating f \<noteq> None" fs]
  by (simp add: rated_count_def unrated_count_def)

text \<open>
  Claim C1, as amended.  For every list of feedback rows the three sentiment counts add up
  to the number of all rows, which is the number of rated rows plus the number of unrated
  ones: a row with a null rating is read as rating 0 and counted Negative.  Positive
  counts the rows with a rating of at least 4, Neutral those with a rating from 2.5 up to
  but not including 4, Negative those with a rating below 2.5 or no rating.  Analytics
  and EnhancedDashboardOverview compute the same three counts.
\<close>

theorem sentiment_buckets_total:
  "positive fs + neutral fs + negative fs = rated_count fs + unrated_count fs
   \<and> positive fs + neutral fs + negative fs = length fs
   \<and> map slice_count (sentimentData fs) = [positive fs, neutral fs, negative fs]
   \<and> positive fs =
       length (filter (\<lambda>f. case average_rating f of None \<Rightarrow> False | Some r \<Rightarrow> 4 \<le> r) fs)
   \<and> neutral fs =
       length (filter (\<lambda>f. case average_rating f of None \<Rightarrow> False
                          | Some r \<Rightarrow> 2.5 \<le> r \<and> r < 4) fs)
   \<and> negative fs =
       length (filter (\<lambda>f. case average_rating f of None \<Rightarrow> True | Some r \<Rightarrow> r < 2.5) fs)"
proof -
  have pos: "(\<lambda>f. 4 \<le> or0 (Number (average_rating f)))
      = (\<lambda>f. case average_rating f of None \<Rightarrow> False | Some r \<Rightarrow> 4 \<le> r)"
    by (rule ext) (simp add: or0_id Number_def split: option.split)
  have neu: "(\<lambda>f. let rating = or0 (Number (average_rating f)) in 2.5 \<le> rating \<and> rating < 4)
      = (\<lambda>f. case average_rating f of None \<Rightarrow> False | Some r \<Rightarrow> 2.5 \<le> r \<and> r < 4)"
    by (rule ext) (simp add: or0_id Number_def Let_def split: option.split)
  have neg: "(\<lambda>f. or0 (Number (average_rating f)) < 2.5)
      = (\<lambda>f. case average_rating f of None \<Rightarrow> True | Some r \<Rightarrow> r < 2.5)"
    by (rule ext) (simp add: or0_id Number_def split: option.split)
  have P: "positive fs =
       length (filter (\<lambda>f. case average_rating f of None \<Rightarrow> False | Some r \<Rightarrow> 4 \<le> r) fs)"
    unfolding positive_def pos ..
  have N: "neutral fs =
       length (filter (\<lambda>f. case average_rating f of None \<Rightarrow> False
                          | Some r \<Rightarrow> 2.5 \<le> r \<and> r < 4) fs)"
    unfolding neutral_def neu ..
  have G: "negative fs =
       length (filter (\<lambda>f. case average_rating f of None \<Rightarrow> True | Some r \<Rightarrow> r < 2.5) fs)"
    unfolding negative_def neg ..
  have S: "positive fs + neutral fs + negative fs = rated_count fs + unrated_count fs"
    by (simp add: buckets_sum rated_unrated_count)
  have D: "map slice_count (sentimentData fs) = [positive fs, neutral fs, negative fs]"
    unfolding sentimentData_def positive_def neutral_def negative_def by simp
  from buckets_sum [of fs] S D P N G show ?thesis
    by blast
qed

text \<open>
  Claim C1 as stated fails on a single unrated row: no row has a rating, yet the three
  counts add up to 1, the row being counted Negative.
\<close>

theorem sentiment_buckets_counterexample:
  "positive [unrated_row] + neutral [unrated_row] + negative [unrated_row] = 1
   \<and> rated_count [unrated_row] = 0
   \<and> negative [unrated_row] = 1"
  by (simp add: positive_def neutral_def negative_def rated_count_def unrated_row_def
      Number_def or0_def)

section \<open>Rating average\<close>

lemma binade_numeral:
  "binade (numeral k) x e =
     (if 2 \<le> x then binade (pred_numeral k) (x / 2) (e + 1)
      else if x < 1 then binade (pred_numeral k) (x * 2) (e - 1)
      else e)"
  by (simp add: numeral_eq_Suc)

lemmas double_eval = double_def ulp_def binade_numeral pow2_def round_even_def

text \<open>The rounding at work: the doubles nearest to 1.1 and to a third.\<close>

lemma double_examples:
  "double 4 = 4
   \<and> double (11 / 10) = 4953959590107546 / 4503599627370496
   \<and> double (1 / 3) = 6004799503160661 / 18014398509481984"
  by (simp add: double_eval)

text \<open>
  Rows rated 1.1 and 4: the sum of the two doubles rounds down, the average is the double
  just below 2.55, and the dashboard shows 2.5, where exact arithmetic would give 2.6.
\<close>

lemma averageRating_rounds:
  "toFixed1 (averageRating (Some [rated_row (double (11 / 10)), rated_row 4])) = 5 / 2"
  by (simp add: averageRating_def ratingsData_def rated_row_def unrated_row_def truthy_def
      rating_or0_def Number_def js_add_def js_div_def toFixed1_def double_eval)

text \<open>
  Which rows the two averages take, for every list: the dashboard sums and counts the
  ratings that are present and not 0, Analytics sums the ratings with an absent one read
  as 0 and counts every row.
\<close>

lemma ratingsData_nonzero:
  "map (\<lambda>f. rating_or0 (average_rating f)) (ratingsData (Some fs)) = nonzero_ratings fs"
  by (induction fs)
     (simp_all add: ratingsData_def nonzero_ratings_def present_ratings_def rating_or0_def
        truthy_def Number_def split: option.split)

lemma averageRating_rows:
  "averageRating (Some fs) =
     (if nonzero_ratings fs = [] then 0
      else js_div (foldl js_add 0 (nonzero_ratings fs)) (of_nat (length (nonzero_ratings fs))))"
proof -
  have len: "length (ratingsData (Some fs)) = length (nonzero_ratings fs)"
    using arg_cong [OF ratingsData_nonzero [of fs], of length] by simp
  have "foldl (\<lambda>sum f. js_add sum (rating_or0 (average_rating f))) 0 (ratingsData (Some fs))
          = foldl js_add 0 (nonzero_ratings fs)"
    unfolding ratingsData_nonzero [symmetric] foldl_map ..
  then show ?thesis
    by (simp add: averageRating_def len)
qed

lemma avgRating_rows:
  "avgRating fs =
     (if fs = [] then None
      else Some (js_div (foldl js_add 0 (map (\<lambda>f. Number (average_rating f)) fs))
                   (of_nat (length fs))))"
  by (simp add: avgRating_def foldl_map or0_id)

text \<open>
  Claim C2 says that the rating average is the mean of the ratings that are present,
  unrated rows counting neither in the sum nor in the divisor.  The code on an unrated
  row and a row rated 4, where that mean is 4: the Analytics statistics divide by both
  rows and report 2, while the dashboard reports 4.  And on a row rated 0 and a row rated
  4, where that mean is 2: the dashboard leaves the row rated 0 out and reports 4, while
  the Analytics statistics report 2.
\<close>

theorem rating_average_divergence:
  "mean (present_ratings [unrated_row, rated_row 4]) = 4
   \<and> avgRating [unrated_row, rated_row 4] = Some 2
   \<and> toFixed1 (averageRating (Some [unrated_row, rated_row 4])) = 4
   \<and> mean (present_ratings [rated_row 0, rated_row 4]) = 2
   \<and> toFixed1 (averageRating (Some [rated_row 0, rated_row 4])) = 4
   \<and> avgRating [rated_row 0, rated_row 4] = Some 2"
  by (simp add: present_ratings_def mean_def averageRating_def ratingsData_def rated_row_def
      unrated_row_def truthy_def rating_or0_def Number_def or0_def avgRating_def toFixed1_def
      js_add_def js_div_def double_eval)

section \<open>Rating bands of the search filter\<close>

text \<open>
  Claim C3.  The rating filter of AdvancedSearch maps the selector \<^verbatim>\<open>"5"\<close> to the ratings
  from 4.5 on, \<^verbatim>\<open>"4"\<close> to those from 3.5 up to but not including 4.5, \<^verbatim>\<open>"3"\<close> to
  those from 2.5 up to but not including 3.5, \<^verbatim>\<open>"2"\<close> to those from 1.5 up to but not
  including 2.5, and \<^verbatim>\<open>"1"\<close> to those below 1.5; of the ratings 2.4, 2.5, 3.4 and 3.5
  the band \<^verbatim>\<open>"3"\<close> keeps exactly 2.5 and 3.4.  A row without a rating is in no band.
\<close>

theorem search_rating_bands:
  "(selected (search_rating_filter ''5'') (Some r) \<longleftrightarrow> 4.5 \<le> r)
   \<and> (selected (search_rating_filter ''4'') (Some r) \<longleftrightarrow> 3.5 \<le> r \<and> r < 4.5)
   \<and> (selected (search_rating_filter ''3'') (Some r) \<longleftrightarrow> 2.5 \<le> r \<and> r < 3.5)
   \<and> (selected (search_rating_filter ''2'') (Some r) \<longleftrightarrow> 1.5 \<le> r \<and> r < 2.5)
   \<and> (selected (search_rating_filter ''1'') (Some r) \<longleftrightarrow> r < 1.5)
   \<and> filter (\<lambda>x. selected (search_rating_filter ''3'') (Some x)) [2.4, 2.5, 3.4, 3.5]
       = [2.5, 3.4]
   \<and> \<not> selected (search_rating_filter ''5'') None
   \<and> \<not> selected (search_rating_filter ''4'') None
   \<and> \<not> selected (search_rating_filter ''3'') None
   \<and> \<not> selected (search_rating_filter ''2'') None
   \<and> \<not> selected (search_rating_filter ''1'') None"
  by (simp add: search_rating_filter_def selected_def)

text \<open>
  The rating filter of FeedbackManagement has selectors and bands of its own: \<^verbatim>\<open>"4+"\<close>
  from 4 on, \<^verbatim>\<open>"3+"\<close> from 3 to 4, \<^verbatim>\<open>"2+"\<close> from 2 to 3, \<^verbatim>\<open>"1+"\<close> below 2.
\<close>

lemma management_rating_bands:
  "(selected (management_rating_filter ''4+'') (Some r) \<longleftrightarrow> 4 \<le> r)
   \<and> (selected (management_rating_filter ''3+'') (Some r) \<longleftrightarrow> 3 \<le> r \<and> r < 4)
   \<and> (selected (management_rating_filter ''2+'') (Some r) \<longleftrightarrow> 2 \<le> r \<and> r < 3)
   \<and> (selected (management_rating_filter ''1+'') (Some r) \<longleftrightarrow> r < 2)"
  by (simp add: management_rating_filter_def selected_def)

section \<open>Filter changes and the page cursor\<close>

text \<open>None of the three filter handlers touches the page; Clear Filters sets it to 1.\<close>

lemma changeFilter_keeps_page: "currentPage (changeFilter c s) = currentPage s"
  by (cases c) (simp_all add: setSearchTerm_def setRatingFilter_def setDateFilter_def)

lemma onClearFilters_page: "currentPage (onClearFilters s) = 1"
  by (simp add: onClearFilters_def)

text \<open>
  Claim C4 says that a change of any filter field resets the current page to 1.  The code
  at the claim's own example: on page 3, a change of the rating filter leaves the current
  page at 3, and so does a change of the search text or of the date filter; only the
  Clear Filters button, which resets the three filters together, sets the page to 1.
\<close>

theorem filter_change_on_page_3:
  "currentPage (changeFilter (RatingFilter ''4+'') (on_page 3)) = 3
   \<and> currentPage (changeFilter (SearchTerm ''slow'') (on_page 3)) = 3
   \<and> currentPage (changeFilter (DateFilter ''week'') (on_page 3)) = 3
   \<and> currentPage (onClearFilters (on_page 3)) = 1"
  by (simp add: setSearchTerm_def setRatingFilter_def setDateFilter_def onClearFilters_def
      on_page_def fm_initial_def)

section \<open>Pagination\<close>

lemma totalPages_div: "totalPages (Some n) = (int n + 9) div 10"
proof -
  have "\<lceil>real n / 10\<rceil> = \<lceil>real_of_int (int n) / real_of_int 10\<rceil>"
    by simp
  also have "\<dots> = - (- int n div 10)"
    by (rule ceiling_divide_eq_div)
  also have "\<dots> = (int n + 9) div 10"
    by presburger
  finally show ?thesis
    by (simp add: totalPages_def totalCount_def ITEMS_PER_PAGE_def)
qed

text \<open>
  What the page kept by a filter change means when the new filter matches 5 rows: the
  query asks for the rows 20 to 29, of which there are none, and with a single page the
  pagination controls are not rendered.
\<close>

lemma stale_page_after_filter_change:
  "page_range (changeFilter (RatingFilter ''4+'') (on_page 3)) = (20, 29)
   \<and> totalPages (Some 5) = 1
   \<and> \<not> paginationShown (totalPages (Some 5))"
  by (simp add: page_range_def setRatingFilter_def on_page_def fm_initial_def
      ITEMS_PER_PAGE_def totalPages_div paginationShown_def)

text \<open>
  Claim C5, as amended.  The number of pages is the row count divided by the page size of
  10 and rounded up (3 pages for 23 rows, no page for no rows or a missing count).
  Previous and Next keep a current page that lies between 1 and the number of pages
  within that range; Next on or past the last page ends on the last page and Previous
  on page 1 or below ends on page 1.  Previous is disabled exactly on page 1 and Next
  exactly on the last page.
\<close>

theorem pagination_amended:
  "totalPages (Some n) = \<lceil>real n / 10\<rceil>
   \<and> totalPages (Some n) = (int n + 9) div 10
   \<and> totalPages None = 0
   \<and> totalPages (Some 23) = 3
   \<and> (1 \<le> currentPage s \<and> currentPage s \<le> pages \<longrightarrow>
        1 \<le> currentPage (nextPage pages s) \<and> currentPage (nextPage pages s) \<le> pages
        \<and> 1 \<le> currentPage (previousPage s) \<and> currentPage (previousPage s) \<le> pages)
   \<and> (pages \<le> currentPage s \<longrightarrow> currentPage (nextPage pages s) = pages)
   \<and> (currentPage s \<le> 1 \<longrightarrow> currentPage (previousPage s) = 1)
   \<and> (previousDisabled s \<longleftrightarrow> currentPage s = 1)
   \<and> (nextDisabled pages s \<longleftrightarrow> currentPage s = pages)"
proof -
  have a: "totalPages (Some n) = \<lceil>real n / 10\<rceil>"
    by (simp add: totalPages_def totalCount_def ITEMS_PER_PAGE_def)
  have b: "totalPages None = 0"
    by (simp add: totalPages_def totalCount_def)
  have c: "totalPages (Some 23) = 3"
    by (simp add: totalPages_div)
  show ?thesis
    using a b c totalPages_div [of n]
    by (simp add: nextPage_def previousPage_def previousDisabled_def nextDisabled_def)
qed

text \<open>
  The amended claim on the last of 3 pages (Next stays on page 3, Previous goes to page 2)
  and on page 1 (Previous stays on page 1).
\<close>

theorem pagination_amended_witness:
  "1 \<le> currentPage (on_page 3) \<and> currentPage (on_page 3) \<le> 3
   \<and> currentPage (nextPage 3 (on_page 3)) = 3
   \<and> currentPage (previousPage (on_page 3)) = 2
   \<and> currentPage (on_page 1) \<le> 1
   \<and> currentPage (previousPage (on_page 1)) = 1
   \<and> totalPages (Some 23) = 3"
  using pagination_amended [of 23 "on_page 3" 3] pagination_amended [of 23 "on_page 1" 3]
  by (simp add: on_page_def fm_initial_def previousPage_def)

text \<open>
  Claim C5 as stated fails where the query returns no row: the component starts on page
  1, the number of pages is 0, and 1 is not between 1 and 0.
\<close>

theorem pagination_counterexample:
  "totalPages (Some 0) = 0
   \<and> currentPage fm_initial = 1
   \<and> \<not> (1 \<le> currentPage fm_initial \<and> currentPage fm_initial \<le> totalPages (Some 0))"
  by (simp add: totalPages_def totalCount_def fm_initial_def)

section \<open>Notifications\<close>

text \<open>
  Claim C6, as amended.  A new-feedback notification has priority high if and only if the
  rating is absent or below 3 (an absent rating is read as 0), and priority medium
  otherwise; a new-issue notification always has priority high.
\<close>

theorem notification_priority_amended:
  "priority (newNotification (FeedbackInsert new date))
     = (if (case average_rating new of None \<Rightarrow> True | Some r \<Rightarrow> r < 3) then high else medium)
   \<and> priority (newNotification (IssueInsert i date)) = high"
  by (simp add: Number_def split: option.split)

text \<open>
  Claim C6 as stated fails on a feedback row without a rating: its notification has
  priority high although no rating is present.
\<close>

theorem notification_priority_counterexample:
  "average_rating unrated_row = None
   \<and> priority (newNotification (FeedbackInsert unrated_row 0)) = high"
  by (simp add: unrated_row_def Number_def)

lemma notifications_after_snoc:
  "notifications_after (events @ [e]) = newNotification e # take 9 (notifications_after events)"
  by (simp add: notifications_after_def on_insert_def)

lemma notifications_after_take:
  "notifications_after events = take 10 (rev (map newNotification events))"
proof (induction events rule: rev_induct)
  case Nil
  show ?case by (simp add: notifications_after_def)
next
  case (snoc e events)
  have "take 9 (take 10 (rev (map newNotification events)))
          = take 9 (rev (map newNotification events))"
    by simp
  with snoc show ?case
    by (simp add: notifications_after_snoc)
qed

text \<open>
  Claim C7.  After any sequence of insert events the notification list is the
  notifications of the 10 most recent events, newest first, so it never holds more than
  10; after 12 events it holds the notifications of the 12th down to the 3rd, the two
  oldest having been dropped.
\<close>

theorem notifications_retention:
  "notifications_after events = take 10 (rev (map newNotification events))
   \<and> length (notifications_after events) \<le> 10
   \<and> notifications_after [e1, e2, e3, e4, e5, e6, e7, e8, e9, e10, e11, e12]
       = map newNotification [e12, e11, e10, e9, e8, e7, e6, e5, e4, e3]"
  by (simp add: notifications_after_take)

section \<open>Purity of the aggregation\<close>

text \<open>
  A call of \<^verbatim>\<open>chartData\<close> or \<^verbatim>\<open>loadDashboardData\<close> receives the addresses of its lists and the
  store as the caller has it, and returns its result together with the store it leaves behind.
  The lemmas of this section follow the two functions through the store: every write goes to a
  cell that the call has allocated itself, so the store of the caller is a prefix of the store
  that is left, and the result is a function of the rows read at entry (\<^term>\<open>chart_of\<close>,
  \<^term>\<open>dashboard_of\<close>).
\<close>

subsection \<open>Reading a store that has grown\<close>

lemma cell_at_update:
  "cell_at (h[a := c]) b = (if b < length h then Some (if a = b then c else h ! b) else None)"
  by (simp add: cell_at_def nth_list_update)

lemma cell_at_old: "a < length h \<Longrightarrow> cell_at (h @ ext) a = cell_at h a"
  by (simp add: cell_at_def nth_append)

lemma cell_at_new:
  "\<not> a < length h \<Longrightarrow> a < length h + length ext \<Longrightarrow>
     cell_at (h @ ext) a = Some (ext ! (a - length h)) \<and> ext ! (a - length h) \<in> set ext"
  by (simp add: cell_at_def nth_append)

lemma cell_at_beyond: "\<not> a < length h \<Longrightarrow> cell_at h a = None"
  by (simp add: cell_at_def)

text \<open>Cells added to a store change no reading of a row, as long as none of them is a row.\<close>

lemma feedback_at_append:
  assumes "\<forall>c\<in>set ext. \<forall>f. c \<noteq> FeedbackCell f"
  shows "feedback_at (h @ ext) r = feedback_at h r"
proof (cases "r < length h")
  case True
  then show ?thesis
    by (simp add: feedback_at_def cell_at_old)
next
  case False
  show ?thesis
  proof (cases "r < length h + length ext")
    case True
    from cell_at_new [OF False True] assms False show ?thesis
      by (auto simp: feedback_at_def cell_at_beyond split: cell.split)
  next
    case False
    with \<open>\<not> r < length h\<close> show ?thesis
      by (simp add: feedback_at_def cell_at_beyond)
  qed
qed

lemma issue_at_append:
  assumes "\<forall>c\<in>set ext. \<forall>i. c \<noteq> IssueCell i"
  shows "issue_at (h @ ext) r = issue_at h r"
proof (cases "r < length h")
  case True
  then show ?thesis
    by (simp add: issue_at_def cell_at_old)
next
  case False
  show ?thesis
  proof (cases "r < length h + length ext")
    case True
    from cell_at_new [OF False True] assms False show ?thesis
      by (auto simp: issue_at_def cell_at_beyond split: cell.split)
  next
    case False
    with \<open>\<not> r < length h\<close> show ?thesis
      by (simp add: issue_at_def cell_at_beyond)
  qed
qed

lemma array_at_old: "a < length h \<Longrightarrow> array_at (h @ ext) a = array_at h a"
  by (simp add: array_at_def cell_at_old)

lemma array_at_append:
  assumes "\<forall>c\<in>set ext. \<forall>rs. c \<noteq> ArrayCell rs"
  shows "array_at (h @ ext) a = array_at h a"
proof (cases "a < length h")
  case True
  then show ?thesis
    by (simp add: array_at_old)
next
  case False
  show ?thesis
  proof (cases "a < length h + length ext")
    case True
    from cell_at_new [OF False True] assms False show ?thesis
      by (auto simp: array_at_def cell_at_beyond split: cell.split)
  next
    case False
    with \<open>\<not> a < length h\<close> show ?thesis
      by (simp add: array_at_def cell_at_beyond)
  qed
qed

lemma array_at_nonempty: "array_at h a \<noteq> [] \<Longrightarrow> a < length h"
  by (simp add: array_at_def cell_at_def split: if_splits)

lemma map_filter_cong_set:
  "(\<And>x. x \<in> set xs \<Longrightarrow> f x = g x) \<Longrightarrow> List.map_filter f xs = List.map_filter g xs"
  by (induction xs) (auto simp: map_filter_simps split: option.split)

lemma rows_at_append:
  assumes "\<forall>c\<in>set ext. \<forall>f. c \<noteq> FeedbackCell f" and "a < length h"
  shows "rows_at (h @ ext) a = rows_at h a"
proof -
  have "feedback_at (h @ ext) = feedback_at h"
    using feedback_at_append [OF assms(1)] by (rule ext)
  with assms(2) show ?thesis
    by (simp add: rows_at_def array_at_old)
qed

lemma map_filter_snoc:
  "List.map_filter f (xs @ [x]) = List.map_filter f xs @ (case f x of None \<Rightarrow> [] | Some y \<Rightarrow> [y])"
  by (induction xs) (simp_all add: map_filter_simps split: option.split)

subsection \<open>The time series: points found and counted up in place\<close>

lemma point_at_update:
  "p < length h \<Longrightarrow> point_at (h[e := PointCell v]) p = (if p = e then Some v else point_at h p)"
  by (auto simp: point_at_def cell_at_update cell_at_def)

lemma find_update_points:
  assumes "distinct rs"
    and "\<forall>p\<in>set rs. p < length h \<and> (\<exists>it. point_at h p = Some it)"
    and "find (\<lambda>p. case point_at h p of None \<Rightarrow> False | Some it \<Rightarrow> point_date it = date) rs
           = Some e"
    and "point_at h e = Some item"
  shows "List.map_filter
           (point_at (h[e := PointCell
               \<lparr>point_date = point_date item,
                point_count = point_count item + 1,
                point_totalRating = js_add (point_totalRating item) r,
                point_avgRating =
                  js_div (js_add (point_totalRating item) r) (of_nat (point_count item + 1))\<rparr>]))
           rs
         = add_point date r (List.map_filter (point_at h) rs)"
  using assms
proof (induction rs)
  case Nil
  then show ?case by simp
next
  case (Cons q qs)
  from Cons.prems(2) obtain iq where iq: "point_at h q = Some iq" and q: "q < length h"
    by auto
  show ?case
  proof (cases "point_date iq = date")
    case True
    with Cons.prems(3) iq have e: "e = q"
      by simp
    with iq Cons.prems(4) have item: "item = iq"
      by simp
    have "q \<notin> set qs"
      using Cons.prems(1) by simp
    then have "List.map_filter (point_at (h[q := PointCell v])) qs = List.map_filter (point_at h) qs"
      for v
      using Cons.prems(2)
      by (intro map_filter_cong_set) (auto simp: point_at_update)
    with True e item iq q show ?thesis
      by (simp add: map_filter_simps point_at_update)
  next
    case False
    with Cons.prems(3) iq have f: "find (\<lambda>p. case point_at h p of None \<Rightarrow> False | Some it \<Rightarrow> point_date it = date) qs = Some e"
      by simp
    then have "e \<in> set qs"
      by (auto simp: find_Some_iff)
    with Cons.prems(1) have ne: "q \<noteq> e"
      by auto
    from Cons.prems have IH: "List.map_filter
           (point_at (h[e := PointCell
               \<lparr>point_date = point_date item,
                point_count = point_count item + 1,
                point_totalRating = js_add (point_totalRating item) r,
                point_avgRating =
                  js_div (js_add (point_totalRating item) r) (of_nat (point_count item + 1))\<rparr>]))
           qs
         = add_point date r (List.map_filter (point_at h) qs)"
      using f by (intro Cons.IH) auto
    with False ne iq q show ?thesis
      by (simp add: map_filter_simps point_at_update)
  qed
qed

lemma find_none_points:
  assumes "\<forall>p\<in>set rs. \<exists>it. point_at h p = Some it"
    and "find (\<lambda>p. case point_at h p of None \<Rightarrow> False | Some it \<Rightarrow> point_date it = date) rs
           = None"
  shows "add_point date r (List.map_filter (point_at h) rs)
         = List.map_filter (point_at h) rs
             @ [\<lparr>point_date = date, point_count = 1, point_totalRating = r, point_avgRating = r\<rparr>]"
  using assms
proof (induction rs)
  case Nil
  then show ?case by (simp add: map_filter_simps)
next
  case (Cons q qs)
  from Cons.prems(1) obtain iq where iq: "point_at h q = Some iq"
    by auto
  with Cons.prems(2) have ne: "point_date iq \<noteq> date"
    and f: "find (\<lambda>p. case point_at h p of None \<Rightarrow> False | Some it \<Rightarrow> point_date it = date) qs = None"
    by (auto split: if_splits)
  from Cons.prems(1) f have "add_point date r (List.map_filter (point_at h) qs)
         = List.map_filter (point_at h) qs
             @ [\<lparr>point_date = date, point_count = 1, point_totalRating = r, point_avgRating = r\<rparr>]"
    by (intro Cons.IH) auto
  with iq ne show ?case
    by (simp add: map_filter_simps)
qed

lemma series_view:
  assumes "h = h0 @ ArrayCell rs # map PointCell pts"
  shows "array_at h (length h0) = rs"
    and "length h = length h0 + 1 + length pts"
    and "\<And>p. length h0 < p \<Longrightarrow> p < length h \<Longrightarrow> point_at h p = Some (pts ! (p - length h0 - 1))"
    and "\<And>r. feedback_at h r = feedback_at h0 r"
    and "\<And>a. a < length h0 \<Longrightarrow> array_at h a = array_at h0 a"
proof -
  show "array_at h (length h0) = rs"
    by (simp add: assms array_at_def cell_at_def)
  show len: "length h = length h0 + 1 + length pts"
    by (simp add: assms)
  show "point_at h p = Some (pts ! (p - length h0 - 1))" if "length h0 < p" "p < length h" for p
  proof -
    from that len have "p - length h0 = Suc (p - length h0 - 1)" "p - length h0 - 1 < length pts"
      by simp_all
    with that show ?thesis
      by (simp add: assms point_at_def cell_at_def nth_append)
  qed
  show "feedback_at h r = feedback_at h0 r" for r
    unfolding assms by (rule feedback_at_append) auto
  show "array_at h a = array_at h0 a" if "a < length h0" for a
    unfolding assms using that by (rule array_at_old)
qed

lemma timeSeries_step:
  assumes inv: "series_store h0 h" and row: "feedback_at h r = Some f"
  shows "series_store h0 (timeSeries_callback env (length h0) h r)
         \<and> points_at (timeSeries_callback env (length h0) h r) (length h0)
             = add_point (toLocaleDateString env (Date env (received_at f)))
                 (or0 (Number (average_rating f))) (points_at h (length h0))"
proof -
  from inv obtain rs pts where h: "h = h0 @ ArrayCell rs # map PointCell pts"
    and dist: "distinct rs" and bounds: "\<forall>p\<in>set rs. length h0 < p \<and> p < length h"
    by (auto simp: series_store_def)
  note view = series_view [OF h]
  let ?date = "toLocaleDateString env (Date env (received_at f))"
  let ?r = "or0 (Number (average_rating f))"
  let ?P = "\<lambda>p. case point_at h p of None \<Rightarrow> False | Some it \<Rightarrow> point_date it = ?date"
  have pts: "\<forall>p\<in>set rs. p < length h \<and> (\<exists>it. point_at h p = Some it)"
    using bounds view(3) by auto
  show ?thesis
  proof (cases "find ?P rs")
    case None
    let ?new = "\<lparr>point_date = ?date, point_count = 1, point_totalRating = ?r, point_avgRating = ?r\<rparr>"
    define h' where "h' = h0 @ ArrayCell (rs @ [length h]) # map PointCell (pts @ [?new])"
    have a1: "array_at (h @ [PointCell ?new]) (length h0) = rs"
      using view(1) array_at_old [of "length h0" h "[PointCell ?new]"] by (simp add: view(2))
    have "(h @ [PointCell ?new])[length h0 := ArrayCell (rs @ [length h])] = h'"
      by (simp add: h h'_def list_update_append)
    with None row view(1) a1 have cb: "timeSeries_callback env (length h0) h r = h'"
      by (simp add: timeSeries_callback_def alloc_def)
    have "length h \<notin> set rs"
      using bounds by auto
    with dist bounds have inv': "series_store h0 h'"
      unfolding series_store_def h'_def
      by (intro exI [of _ "rs @ [length h]"] exI [of _ "pts @ [?new]"]) (auto simp: view(2))
    note view' = series_view [OF h'_def]
    have same: "point_at h' p = point_at h p" if "p \<in> set rs" for p
    proof -
      from that bounds have "length h0 < p" "p < length h"
        by auto
      moreover from this have "p - length h0 - 1 < length pts"
        using view(2) by simp
      ultimately show ?thesis
        using view(3) [of p] view'(3) [of p] by (simp add: nth_append view'(2))
    qed
    have new: "point_at h' (length h) = Some ?new"
      using view'(3) [of "length h"] by (simp add: view(2) view'(2) nth_append)
    have "points_at h' (length h0) = List.map_filter (point_at h') (rs @ [length h])"
      by (simp only: points_at_def view'(1))
    also have "\<dots> = List.map_filter (point_at h') rs @ [?new]"
      by (simp add: map_filter_snoc new)
    also have "List.map_filter (point_at h') rs = List.map_filter (point_at h) rs"
      by (rule map_filter_cong_set) (rule same)
    also have "List.map_filter (point_at h) rs @ [?new] = add_point ?date ?r (List.map_filter (point_at h) rs)"
      using find_none_points [of rs h ?date ?r] pts None by auto
    finally show ?thesis
      using inv' by (simp add: cb points_at_def view(1))
  next
    case (Some e)
    then have e: "e \<in> set rs"
      by (auto simp: find_Some_iff)
    with pts obtain item where item: "point_at h e = Some item"
      by auto
    define v where "v = \<lparr>point_date = point_date item,
                point_count = point_count item + 1,
                point_totalRating = js_add (point_totalRating item) ?r,
                point_avgRating =
                  js_div (js_add (point_totalRating item) ?r) (of_nat (point_count item + 1))\<rparr>"
    have cb: "timeSeries_callback env (length h0) h r = h[e := PointCell v]"
      using Some row item view(1)
      by (simp add: timeSeries_callback_def v_def)
    from e bounds have eb: "length h0 < e" "e < length h"
      by auto
    have "(ArrayCell rs # map PointCell pts)[e - length h0 := PointCell v]
            = ArrayCell rs # map PointCell (pts[e - length h0 - 1 := v])"
      using eb by (cases "e - length h0") (simp_all add: map_update)
    with eb have h': "h[e := PointCell v] = h0 @ ArrayCell rs # map PointCell (pts[e - length h0 - 1 := v])"
      by (simp add: h list_update_append)
    have inv': "series_store h0 (h[e := PointCell v])"
      unfolding series_store_def
      using dist bounds h' view(2)
      by (intro exI [of _ rs] exI [of _ "pts[e - length h0 - 1 := v]"]) simp
    have "points_at (h[e := PointCell v]) (length h0)
            = List.map_filter (point_at (h[e := PointCell v])) rs"
      by (simp only: points_at_def series_view(1) [OF h'])
    also have "\<dots> = add_point ?date ?r (List.map_filter (point_at h) rs)"
      unfolding v_def using find_update_points [OF dist pts Some item] .
    finally show ?thesis
      using inv' by (simp add: cb points_at_def view(1))
  qed
qed

lemma reduce_foldl:
  assumes "P h" and step: "\<And>h r. P h \<Longrightarrow> P (callback h r)"
    and arr: "\<And>h. P h \<Longrightarrow> array_at h a = xs"
  shows "reduce callback a h = foldl callback h xs \<and> P (foldl callback h xs)"
proof -
  let ?step = "\<lambda>h k. if k < length (array_at h a) then callback h (array_at h a ! k) else h"
  have "k \<le> length xs \<Longrightarrow>
          foldl ?step h [0..<k] = foldl callback h (take k xs) \<and> P (foldl callback h (take k xs))"
    for k
  proof (induction k)
    case 0
    show ?case using assms(1) by simp
  next
    case (Suc k)
    then have IH: "foldl ?step h [0..<k] = foldl callback h (take k xs)"
      and P: "P (foldl callback h (take k xs))" and k: "k < length xs"
      by simp_all
    from k have "take (Suc k) xs = take k xs @ [xs ! k]"
      by (rule take_Suc_conv_app_nth)
    with IH P k show ?case
      by (simp add: arr step)
  qed
  from this [of "length xs"] assms(1) show ?thesis
    by (simp add: reduce_def arr)
qed

lemma timeSeries_skip: "feedback_at h r = None \<Longrightarrow> timeSeries_callback env acc h r = h"
  by (simp add: timeSeries_callback_def)

lemma series_store_feedback: "series_store h0 h \<Longrightarrow> feedback_at h r = feedback_at h0 r"
  unfolding series_store_def using series_view(4) by blast

lemma series_store_array: "series_store h0 h \<Longrightarrow> a < length h0 \<Longrightarrow> array_at h a = array_at h0 a"
  unfolding series_store_def using series_view(5) by blast

lemma timeSeries_keeps: "series_store h0 h \<Longrightarrow> series_store h0 (timeSeries_callback env (length h0) h r)"
  using timeSeries_step [of h0 h r _ env] timeSeries_skip [of h r env "length h0"]
  by (cases "feedback_at h r") auto

lemma timeSeries_foldl:
  "series_store h0 h \<Longrightarrow>
     series_store h0 (foldl (timeSeries_callback env (length h0)) h rs)
     \<and> points_at (foldl (timeSeries_callback env (length h0)) h rs) (length h0)
         = foldl (\<lambda>items f. add_point (toLocaleDateString env (Date env (received_at f)))
                               (or0 (Number (average_rating f))) items)
             (points_at h (length h0)) (List.map_filter (feedback_at h0) rs)"
proof (induction rs arbitrary: h)
  case Nil
  then show ?case by (simp add: map_filter_simps)
next
  case (Cons r rs)
  show ?case
  proof (cases "feedback_at h0 r")
    case None
    with Cons.prems have "timeSeries_callback env (length h0) h r = h"
      by (simp add: timeSeries_skip series_store_feedback)
    with None Cons.IH [OF Cons.prems] show ?thesis
      by (simp add: map_filter_simps)
  next
    case (Some f)
    with Cons.prems have row: "feedback_at h r = Some f"
      by (simp add: series_store_feedback)
    from timeSeries_step [OF Cons.prems row, of env]
    have inv': "series_store h0 (timeSeries_callback env (length h0) h r)"
      and pts: "points_at (timeSeries_callback env (length h0) h r) (length h0)
             = add_point (toLocaleDateString env (Date env (received_at f)))
                 (or0 (Number (average_rating f))) (points_at h (length h0))"
      by simp_all
    from Cons.IH [OF inv'] Some pts show ?thesis
      by (simp add: map_filter_simps)
  qed
qed

subsection \<open>The weekly chart and the whole of chartData\<close>

lemma weeklyData_turn_store:
  assumes "a < length h2"
  shows "weeklyData_turn env now a (length h2) (h2 @ [DaysCell ds]) i
           = h2 @ [DaysCell (ds @ [day_of env now (rows_at h2 a) i])]"
proof -
  have "rows_at (h2 @ [DaysCell ds]) a = rows_at h2 a"
    using assms by (intro rows_at_append) auto
  moreover have "days_at (h2 @ [DaysCell ds]) (length h2) = ds"
    by (simp add: days_at_def cell_at_def)
  ultimately show ?thesis
    by (simp add: weeklyData_turn_def day_of_def Let_def)
qed

lemma weeklyData_foldl:
  assumes "a < length h2"
  shows "foldl (weeklyData_turn env now a (length h2)) (h2 @ [DaysCell ds]) turns
           = h2 @ [DaysCell (ds @ map (day_of env now (rows_at h2 a)) turns)]"
  using assms by (induction turns arbitrary: ds) (simp_all add: weeklyData_turn_store)

lemma point_at_append:
  assumes "\<forall>c\<in>set new. \<forall>p. c \<noteq> PointCell p"
  shows "point_at (h @ new) r = point_at h r"
proof (cases "r < length h")
  case True
  then show ?thesis
    by (simp add: point_at_def cell_at_old)
next
  case False
  show ?thesis
  proof (cases "r < length h + length new")
    case True
    from cell_at_new [OF False True] assms False show ?thesis
      by (auto simp: point_at_def cell_at_beyond split: cell.split)
  next
    case False
    with \<open>\<not> r < length h\<close> show ?thesis
      by (simp add: point_at_def cell_at_beyond)
  qed
qed

lemma points_at_append:
  assumes "\<forall>c\<in>set new. \<forall>p. c \<noteq> PointCell p" and "a < length h"
  shows "points_at (h @ new) a = points_at h a"
proof -
  have "point_at (h @ new) = point_at h"
    using point_at_append [OF assms(1)] by (rule ext)
  with assms(2) show ?thesis
    by (simp add: points_at_def array_at_old)
qed

lemma timeSeries_reduce:
  assumes "a < length h"
  shows "series_store h (reduce (timeSeries_callback env (length h)) a (h @ [ArrayCell []]))"
    and "points_at (reduce (timeSeries_callback env (length h)) a (h @ [ArrayCell []])) (length h)
           = timeSeries_of env (rows_at h a)"
proof -
  let ?cb = "timeSeries_callback env (length h)"
  define h2 where "h2 = foldl ?cb (h @ [ArrayCell []]) (array_at h a)"
  have start: "series_store h (h @ [ArrayCell []])"
    unfolding series_store_def by (intro exI [of _ "[]"]) simp
  have red: "reduce ?cb a (h @ [ArrayCell []]) = h2" and inv: "series_store h h2"
    using reduce_foldl [of "series_store h" "h @ [ArrayCell []]" ?cb a "array_at h a"]
      start timeSeries_keeps [of h _ env] series_store_array [OF _ assms]
    by (simp_all add: h2_def)
  have "points_at (h @ [ArrayCell []]) (length h) = []"
    by (simp add: points_at_def array_at_def cell_at_def map_filter_simps)
  with timeSeries_foldl [OF start, of env "array_at h a"]
  have series: "points_at h2 (length h) = timeSeries_of env (rows_at h a)"
    by (simp add: h2_def timeSeries_of_def rows_at_def)
  from inv show "series_store h (reduce ?cb a (h @ [ArrayCell []]))"
    by (simp add: red)
  from series show "points_at (reduce ?cb a (h @ [ArrayCell []])) (length h)
           = timeSeries_of env (rows_at h a)"
    by (simp add: red)
qed

lemma chartData_run:
  assumes "array_at h a \<noteq> []"
  shows "chartData env now a h =
           (Some (chart_of env now (rows_at h a)),
            reduce (timeSeries_callback env (length h)) a (h @ [ArrayCell []])
              @ [DaysCell (map (day_of env now (rows_at h a)) [6, 5, 4, 3, 2, 1, 0])])"
proof -
  from assms have a: "a < length h"
    by (rule array_at_nonempty)
  define h2 where "h2 = reduce (timeSeries_callback env (length h)) a (h @ [ArrayCell []])"
  from timeSeries_reduce [OF a, of env]
  have inv: "series_store h h2"
    and series: "points_at h2 (length h) = timeSeries_of env (rows_at h a)"
    by (simp_all add: h2_def)
  from inv obtain rs pts where h2: "h2 = h @ ArrayCell rs # map PointCell pts"
    by (auto simp: series_store_def)
  have a2: "a < length h2"
    using a by (simp add: h2)
  have rows2: "rows_at h2 a = rows_at h a"
    unfolding h2 using _ a by (rule rows_at_append) auto
  define days where "days = map (day_of env now (rows_at h a)) [6, 5, 4, 3, 2, 1, 0]"
  define h4 where "h4 = h2 @ [DaysCell days]"
  have loop: "foldl (weeklyData_turn env now a (length h2)) (h2 @ [DaysCell []]) [6, 5, 4, 3, 2, 1, 0]
                = h4"
    using weeklyData_foldl [OF a2, of env now "[]" "[6, 5, 4, 3, 2, 1, 0]"]
    by (simp add: h4_def days_def rows2)
  have rows4: "rows_at h4 a = rows_at h a"
    unfolding h4_def using rows_at_append [of "[DaysCell days]" a h2] a2 rows2 by simp
  have pts4: "points_at h4 (length h) = timeSeries_of env (rows_at h a)"
    unfolding h4_def using points_at_append [of "[DaysCell days]" "length h" h2] series
    by (simp add: h2)
  have days4: "days_at h4 (length h2) = days"
    by (simp add: h4_def days_at_def cell_at_def)
  have "chartData env now a h = (Some (chart_of env now (rows_at h a)), h4)"
    using assms loop rows2 rows4 pts4 days4 h2_def [symmetric]
    by (simp add: chartData_def alloc_def chart_of_def Let_def days_def)
  then show ?thesis
    by (simp add: h4_def h2_def days_def)
qed

lemma chartData_store:
  assumes "array_at h a \<noteq> []"
  shows "\<exists>rs pts. chartData env now a h =
           (Some (chart_of env now (rows_at h a)),
            h @ ArrayCell rs # map PointCell pts
              @ [DaysCell (map (day_of env now (rows_at h a)) [6, 5, 4, 3, 2, 1, 0])])"
proof -
  from assms have "a < length h"
    by (rule array_at_nonempty)
  from timeSeries_reduce(1) [OF this, of env] show ?thesis
    by (auto simp: chartData_run [OF assms] series_store_def)
qed

lemma chartData_result:
  "fst (chartData env now a h)
     = (if array_at h a = [] then None else Some (chart_of env now (rows_at h a)))"
proof (cases "array_at h a = []")
  case True
  then show ?thesis by (simp add: chartData_def)
next
  case False
  with chartData_store [OF False, of env now] show ?thesis
    by auto
qed

lemma chartData_frame: "take (length h) (snd (chartData env now a h)) = h"
proof (cases "array_at h a = []")
  case True
  then show ?thesis by (simp add: chartData_def)
next
  case False
  with chartData_store [OF False, of env now] show ?thesis
    by auto
qed

lemma chartData_keeps_input:
  "array_at (snd (chartData env now a h)) a = array_at h a
   \<and> rows_at (snd (chartData env now a h)) a = rows_at h a"
proof (cases "array_at h a = []")
  case True
  then show ?thesis by (simp add: chartData_def)
next
  case False
  then have a: "a < length h"
    by (rule array_at_nonempty)
  from chartData_store [OF False, of env now] obtain new
    where s: "snd (chartData env now a h) = h @ new"
      and n: "\<forall>c\<in>set new. \<forall>f. c \<noteq> FeedbackCell f"
    by fastforce
  show ?thesis
    unfolding s using a n by (simp add: array_at_old rows_at_append)
qed

lemma chartData_twice:
  "fst (chartData env now a (snd (chartData env now' a h))) = fst (chartData env now a h)"
  by (simp add: chartData_result chartData_keeps_input)

subsection \<open>The ranking of the issues and the dashboard statistics\<close>

lemma issueCounts_foldl:
  "foldl (issueCounts_callback (length h)) (h @ [CountsCell kvs]) rs
     = h @ [CountsCell (foldl (\<lambda>kvs i. increment (issue_title i) kvs) kvs
                          (List.map_filter (issue_at h) rs))]"
proof (induction rs arbitrary: kvs)
  case Nil
  show ?case by (simp add: map_filter_simps)
next
  case (Cons r rs)
  have i: "issue_at (h @ [CountsCell kvs]) r = issue_at h r"
    by (rule issue_at_append) simp
  have c: "counts_at (h @ [CountsCell kvs]) (length h) = kvs"
    by (simp add: counts_at_def cell_at_def)
  show ?case
  proof (cases "issue_at h r")
    case None
    with i Cons.IH [of kvs] show ?thesis
      by (simp add: issueCounts_callback_def map_filter_simps)
  next
    case (Some issue)
    with i c Cons.IH [of "increment (issue_title issue) kvs"] show ?thesis
      by (simp add: issueCounts_callback_def map_filter_simps)
  qed
qed

lemma topIssues_store:
  "\<exists>kvs es. topIssues issuesData h
      = (topIssues_of (issues_of h issuesData), h @ [CountsCell kvs, EntriesCell es])"
proof -
  define kvs where "kvs = issueCounts_of (issues_of h issuesData)"
  have counted: "(case issuesData of
                    None \<Rightarrow> h @ [CountsCell []]
                  | Some a \<Rightarrow> reduce (issueCounts_callback (length h)) a (h @ [CountsCell []]))
                 = h @ [CountsCell kvs]"
  proof (cases issuesData)
    case None
    then show ?thesis
      by (simp add: kvs_def issues_of_def issueCounts_of_def)
  next
    case (Some a)
    let ?P = "\<lambda>h'. \<exists>kvs. h' = h @ [CountsCell kvs]"
    have step: "?P (issueCounts_callback (length h) h' r)" if "?P h'" for h' r
    proof -
      from that obtain k where "h' = h @ [CountsCell k]"
        by blast
      with issueCounts_foldl [of h k "[r]"] show ?thesis
        by simp
    qed
    have arr: "array_at h' a = array_at h a" if "?P h'" for h'
    proof -
      from that obtain k where "h' = h @ [CountsCell k]"
        by blast
      then show ?thesis
        by (simp add: array_at_append)
    qed
    have "reduce (issueCounts_callback (length h)) a (h @ [CountsCell []])
            = foldl (issueCounts_callback (length h)) (h @ [CountsCell []]) (array_at h a)"
      using reduce_foldl [of ?P "h @ [CountsCell []]" "issueCounts_callback (length h)" a
          "array_at h a"] step arr
      by blast
    with Some show ?thesis
      by (simp add: issueCounts_foldl kvs_def issues_of_def issueCounts_of_def issues_at_def)
  qed
  define h2 where "h2 = h @ [CountsCell kvs]"
  have c2: "counts_at h2 (length h) = kvs"
    by (simp add: h2_def counts_at_def cell_at_def)
  have e3: "entries_at (h2 @ [EntriesCell es]) (length h2) = es" for es
    by (simp add: entries_at_def cell_at_def)
  have "topIssues issuesData h
          = (topIssues_of (issues_of h issuesData),
             h2 @ [EntriesCell (sort_key (\<lambda>(title, count). - int count) (own_entries kvs))])"
    using counted c2 e3
    by (simp add: topIssues_def alloc_def Let_def h2_def [symmetric] topIssues_of_def
        kvs_def [symmetric])
  then show ?thesis
    by (auto simp: h2_def)
qed

lemma loadDashboardData_store:
  "\<exists>kvs es. loadDashboardData rnd now fmt count feedbackData issuesData h
      = (dashboard_of rnd now fmt count (map_option (rows_at h) feedbackData)
           (first_rows h feedbackData) (issues_of h issuesData),
         h @ [CountsCell kvs, EntriesCell es])"
proof -
  from topIssues_store [of issuesData h] obtain kvs es
    where t: "topIssues issuesData h
      = (topIssues_of (issues_of h issuesData), h @ [CountsCell kvs, EntriesCell es])"
    by blast
  have "feedback_at (h @ [CountsCell kvs, EntriesCell es]) = feedback_at h"
    by (rule ext) (simp add: feedback_at_append)
  with t have "loadDashboardData rnd now fmt count feedbackData issuesData h
      = (dashboard_of rnd now fmt count (map_option (rows_at h) feedbackData)
           (first_rows h feedbackData) (issues_of h issuesData),
         h @ [CountsCell kvs, EntriesCell es])"
    by (simp add: loadDashboardData_def dashboard_of_def first_rows_def Let_def
        split: option.split)
  then show ?thesis
    by blast
qed

lemma readers_after_counting:
  "array_at (h @ [CountsCell kvs, EntriesCell es]) = array_at h"
  "feedback_at (h @ [CountsCell kvs, EntriesCell es]) = feedback_at h"
  "issue_at (h @ [CountsCell kvs, EntriesCell es]) = issue_at h"
  by (rule ext, simp add: array_at_append feedback_at_append issue_at_append)+

lemma loadDashboardData_result:
  "fst (loadDashboardData rnd now fmt count feedbackData issuesData h)
     = dashboard_of rnd now fmt count (map_option (rows_at h) feedbackData)
         (first_rows h feedbackData) (issues_of h issuesData)"
  using loadDashboardData_store [of rnd now fmt count feedbackData issuesData h] by auto

lemma loadDashboardData_frame:
  "take (length h) (snd (loadDashboardData rnd now fmt count feedbackData issuesData h)) = h"
  using loadDashboardData_store [of rnd now fmt count feedbackData issuesData h] by auto

lemma loadDashboardData_keeps_input:
  "rows_at (snd (loadDashboardData rnd now fmt count feedbackData issuesData h)) = rows_at h
   \<and> first_rows (snd (loadDashboardData rnd now fmt count feedbackData issuesData h))
       = first_rows h
   \<and> issues_of (snd (loadDashboardData rnd now fmt count feedbackData issuesData h))
       = issues_of h"
proof -
  from loadDashboardData_store [of rnd now fmt count feedbackData issuesData h] obtain kvs es
    where s: "snd (loadDashboardData rnd now fmt count feedbackData issuesData h)
                = h @ [CountsCell kvs, EntriesCell es]"
    by fastforce
  show ?thesis
    unfolding s
    by (intro conjI ext)
       (simp_all add: rows_at_def first_rows_def issues_of_def issues_at_def
          readers_after_counting split: option.split)
qed

lemma loadDashboardData_twice:
  "fst (loadDashboardData rnd now fmt count feedbackData issuesData
          (snd (loadDashboardData rnd' now' fmt' count' feedbackData' issuesData' h)))
     = fst (loadDashboardData rnd now fmt count feedbackData issuesData h)"
  by (simp add: loadDashboardData_result loadDashboardData_keeps_input)

subsection \<open>A run on a store with two rows\<close>

lemma caller_rows:
  "array_at caller_store 0 = [1, 2]"
  "rows_at caller_store 0 = [rated_row 4, unrated_row]"
  "first_rows caller_store (Some 0) = [rated_row 4, unrated_row]"
  "issues_of caller_store (Some 3) = [login_issue]"
  by (simp_all add: caller_store_def rows_at_def first_rows_def issues_of_def issues_at_def
      array_at_def feedback_at_def issue_at_def cell_at_def map_filter_simps)

lemma caller_first:
  "timeSeries_callback utc_dates 5 (caller_store @ [ArrayCell []]) 1
     = caller_store
       @ [ArrayCell [6],
          PointCell \<lparr>point_date = ''1/1/2025'', point_count = 1, point_totalRating = 4,
                      point_avgRating = 4\<rparr>]"
  by (simp add: timeSeries_callback_def alloc_def caller_store_def rated_row_def unrated_row_def
      utc_dates_def en_US_date_def new_year_def array_at_def feedback_at_def point_at_def
      cell_at_def or0_def Number_def)

lemma caller_second:
  "timeSeries_callback utc_dates 5
     (caller_store
       @ [ArrayCell [6],
          PointCell \<lparr>point_date = ''1/1/2025'', point_count = 1, point_totalRating = 4,
                      point_avgRating = 4\<rparr>]) 2
     = caller_store
       @ [ArrayCell [6],
          PointCell \<lparr>point_date = ''1/1/2025'', point_count = 2, point_totalRating = 4,
                      point_avgRating = 2\<rparr>]"
  by (simp add: timeSeries_callback_def alloc_def caller_store_def rated_row_def unrated_row_def
      utc_dates_def en_US_date_def new_year_def array_at_def feedback_at_def point_at_def
      cell_at_def or0_def Number_def js_add_def js_div_def double_eval)

lemma reduce_two:
  assumes "array_at h a = [r1, r2]" and "array_at (callback h r1) a = [r1, r2]"
  shows "reduce callback a h = callback (callback h r1) r2"
proof -
  have "[0..<length [r1, r2]] = [0, Suc 0]"
    by (simp add: upt_rec)
  with assms show ?thesis
    by (simp add: reduce_def)
qed

lemma caller_reduce:
  "reduce (timeSeries_callback utc_dates 5) 0 (caller_store @ [ArrayCell []])
     = caller_store
       @ [ArrayCell [6],
          PointCell \<lparr>point_date = ''1/1/2025'', point_count = 2, point_totalRating = 4,
                      point_avgRating = 2\<rparr>]"
proof -
  have arr: "array_at (caller_store @ ext) 0 = [1, 2]" for ext
    by (simp add: array_at_def cell_at_def caller_store_def)
  have "reduce (timeSeries_callback utc_dates 5) 0 (caller_store @ [ArrayCell []])
          = timeSeries_callback utc_dates 5
              (timeSeries_callback utc_dates 5 (caller_store @ [ArrayCell []]) 1) 2"
    by (rule reduce_two) (simp_all only: caller_first arr)
  then show ?thesis
    by (simp only: caller_first caller_second)
qed

lemma caller_run:
  "snd (chartData utc_dates now 0 caller_store)
     = caller_store
       @ [ArrayCell [6],
          PointCell \<lparr>point_date = ''1/1/2025'', point_count = 2, point_totalRating = 4,
                      point_avgRating = 2\<rparr>,
          DaysCell (map (day_of utc_dates now [rated_row 4, unrated_row])
                      [6, 5, 4, 3, 2, 1, 0])]"
proof -
  have "length caller_store = 5"
    by (simp add: caller_store_def)
  with caller_reduce show ?thesis
    by (simp add: chartData_run caller_rows)
qed

subsection \<open>The claim\<close>

text \<open>
  Claim C8, as amended. The aggregation never mutates its input: the store that
  \<^verbatim>\<open>chartData\<close> and \<^verbatim>\<open>loadDashboardData\<close> leave behind begins with the store they were given,
  cell for cell, so the input lists, their rows and every other object of the caller are as
  they were (first and second conjunct). A second call on the store that the first call has
  left, with the same input list, returns the same output, provided it reads the same clock and
  draws the same \<^verbatim>\<open>Math.random\<close> values (third and fourth conjunct): the output of
  \<^verbatim>\<open>chartData\<close> is a function of the rows and the current date, that of \<^verbatim>\<open>loadDashboardData\<close>
  a function of the rows, the issues, the count, the draws and the clock readings (fifth and
  sixth conjunct). In \<^verbatim>\<open>loadDashboardData\<close> the fields \<^verbatim>\<open>totalFeedback\<close>, \<^verbatim>\<open>averageRating\<close>,
  \<^verbatim>\<open>sentimentDistribution\<close>, \<^verbatim>\<open>topIssues\<close> and \<^verbatim>\<open>recentFeedback\<close> are the same whatever the
  draws and the clock (last five conjuncts); \<^verbatim>\<open>ratingTrends\<close>, \<^verbatim>\<open>weeklyChange\<close> and
  \<^verbatim>\<open>monthlyChange\<close> are made from \<^verbatim>\<open>Math.random\<close> and \<^verbatim>\<open>Date.now\<close>.
\<close>

theorem aggregation_amended:
  "take (length h) (snd (chartData env now feedbacks h)) = h
   \<and> take (length h) (snd (loadDashboardData rnd clock fmt count feedbackData issuesData h)) = h
   \<and> fst (chartData env now feedbacks (snd (chartData env now feedbacks h)))
       = fst (chartData env now feedbacks h)
   \<and> fst (loadDashboardData rnd clock fmt count feedbackData issuesData
            (snd (loadDashboardData rnd clock fmt count feedbackData issuesData h)))
       = fst (loadDashboardData rnd clock fmt count feedbackData issuesData h)
   \<and> fst (chartData env now feedbacks h)
       = (if array_at h feedbacks = [] then None
          else Some (chart_of env now (rows_at h feedbacks)))
   \<and> fst (loadDashboardData rnd clock fmt count feedbackData issuesData h)
       = dashboard_of rnd clock fmt count (map_option (rows_at h) feedbackData)
           (first_rows h feedbackData) (issues_of h issuesData)
   \<and> totalFeedback (fst (loadDashboardData rnd clock fmt count feedbackData issuesData h))
       = totalFeedback (fst (loadDashboardData rnd' clock' fmt' count feedbackData issuesData h))
   \<and> stats_averageRating (fst (loadDashboardData rnd clock fmt count feedbackData issuesData h))
       = stats_averageRating
           (fst (loadDashboardData rnd' clock' fmt' count feedbackData issuesData h))
   \<and> sentimentDistribution (fst (loadDashboardData rnd clock fmt count feedbackData issuesData h))
       = sentimentDistribution
           (fst (loadDashboardData rnd' clock' fmt' count feedbackData issuesData h))
   \<and> stats_topIssues (fst (loadDashboardData rnd clock fmt count feedbackData issuesData h))
       = stats_topIssues (fst (loadDashboardData rnd' clock' fmt' count feedbackData issuesData h))
   \<and> stats_recentFeedback (fst (loadDashboardData rnd clock fmt count feedbackData issuesData h))
       = stats_recentFeedback
           (fst (loadDashboardData rnd' clock' fmt' count feedbackData issuesData h))"
proof -
  note chartData_frame [of h env now feedbacks]
    loadDashboardData_frame [of h rnd clock fmt count feedbackData issuesData]
    chartData_twice [of env now feedbacks now h]
    loadDashboardData_twice [of rnd clock fmt count feedbackData issuesData rnd clock fmt count
      feedbackData issuesData h]
    chartData_result [of env now feedbacks h]
    loadDashboardData_result [of rnd clock fmt count feedbackData issuesData h]
  moreover have "totalFeedback (dashboard_of rnd clock fmt count r f i)
      = totalFeedback (dashboard_of rnd' clock' fmt' count r f i)"
    "stats_averageRating (dashboard_of rnd clock fmt count r f i)
      = stats_averageRating (dashboard_of rnd' clock' fmt' count r f i)"
    "sentimentDistribution (dashboard_of rnd clock fmt count r f i)
      = sentimentDistribution (dashboard_of rnd' clock' fmt' count r f i)"
    "stats_topIssues (dashboard_of rnd clock fmt count r f i)
      = stats_topIssues (dashboard_of rnd' clock' fmt' count r f i)"
    "stats_recentFeedback (dashboard_of rnd clock fmt count r f i)
      = stats_recentFeedback (dashboard_of rnd' clock' fmt' count r f i)" for r f i
    by (simp_all add: dashboard_of_def)
  ultimately show ?thesis
    by (simp add: loadDashboardData_result)
qed

text \<open>
  The amended claim on a store with two rows of one day and one issue. \<^verbatim>\<open>chartData\<close> leaves
  three cells behind the five of the caller (its accumulator, the one point of the time series,
  counted up in place to 2, and the weekly chart), and a second call on that store returns
  what the first returned; \<^verbatim>\<open>loadDashboardData\<close> ranks the one issue and averages the one
  rated row.
\<close>

theorem aggregation_amended_witness:
  "take (length caller_store) (snd (chartData utc_dates new_year 0 caller_store)) = caller_store
   \<and> length (snd (chartData utc_dates new_year 0 caller_store)) = length caller_store + 3
   \<and> fst (chartData utc_dates new_year 0 (snd (chartData utc_dates new_year 0 caller_store)))
       = fst (chartData utc_dates new_year 0 caller_store)
   \<and> weekdays (fst (chartData utc_dates new_year 0 caller_store))
       = [''Thu'', ''Fri'', ''Sat'', ''Sun'', ''Mon'', ''Tue'', ''Wed'']
   \<and> take (length caller_store)
        (snd (loadDashboardData draws_half clock_fixed en_US_short (Some 2) (Some 0) (Some 3)
           caller_store)) = caller_store
   \<and> stats_topIssues (fst (loadDashboardData draws_half clock_fixed en_US_short (Some 2) (Some 0)
         (Some 3) caller_store)) = Some [(''Login'', 1)]
   \<and> stats_averageRating (fst (loadDashboardData draws_half clock_fixed en_US_short (Some 2)
         (Some 0) (Some 3) caller_store)) = 4"
proof -
  note main = aggregation_amended [of caller_store utc_dates new_year 0 draws_half clock_fixed
      en_US_short "Some 2" "Some 0" "Some 3" draws_half clock_fixed en_US_short]
  have top: "topIssues_of [login_issue] = Some [(''Login'', 1)]"
    by (simp add: topIssues_of_def issueCounts_of_def login_issue_def Object_prototype_def
        own_entries_def array_index_def)
  have avg: "toFixed1 (averageRating (Some [rated_row 4, unrated_row])) = 4"
    by (simp add: averageRating_def ratingsData_def rated_row_def unrated_row_def truthy_def
        rating_or0_def Number_def js_add_def js_div_def toFixed1_def double_eval)
  have days: "map day_date (map (day_of utc_dates new_year [rated_row 4, unrated_row])
                 [6, 5, 4, 3, 2, 1, 0])
             = [''Thu'', ''Fri'', ''Sat'', ''Sun'', ''Mon'', ''Tue'', ''Wed'']"
    by (simp add: day_of_def utc_dates_def en_US_weekday_def new_year_def)
  from main top avg days show ?thesis
    by (simp add: caller_rows caller_run weekdays_def chart_of_def dashboard_of_def)
qed

text \<open>
  Claim C8 as stated fails: the same lists in the same store give another
  output when \<^verbatim>\<open>Math.random\<close> draws other values (\<^verbatim>\<open>weeklyChange\<close> is \<^verbatim>\<open>-10\<close> for draws of 0
  and \<^verbatim>\<open>0\<close> for draws of 0.5), and \<^verbatim>\<open>chartData\<close> labels its weekly chart from the current date
  (the week ends on Wednesday on 1 January 2025 and on Thursday the day after).
\<close>

theorem aggregation_counterexample:
  "weeklyChange (fst (loadDashboardData draws_zero clock_fixed en_US_short (Some 2) (Some 0)
       (Some 3) caller_store)) = - 10
   \<and> weeklyChange (fst (loadDashboardData draws_half clock_fixed en_US_short (Some 2) (Some 0)
       (Some 3) caller_store)) = 0
   \<and> fst (loadDashboardData draws_zero clock_fixed en_US_short (Some 2) (Some 0) (Some 3)
         caller_store)
       \<noteq> fst (loadDashboardData draws_half clock_fixed en_US_short (Some 2) (Some 0) (Some 3)
             caller_store)
   \<and> weekdays (fst (chartData utc_dates new_year 0 caller_store))
       = [''Thu'', ''Fri'', ''Sat'', ''Sun'', ''Mon'', ''Tue'', ''Wed'']
   \<and> weekdays (fst (chartData utc_dates next_day 0 caller_store))
       = [''Fri'', ''Sat'', ''Sun'', ''Mon'', ''Tue'', ''Wed'', ''Thu'']
   \<and> fst (chartData utc_dates new_year 0 caller_store)
       \<noteq> fst (chartData utc_dates next_day 0 caller_store)"
proof -
  have w0: "weeklyChange (fst (loadDashboardData draws_zero clock_fixed en_US_short (Some 2)
       (Some 0) (Some 3) caller_store)) = - 10"
    by (simp add: loadDashboardData_result dashboard_of_def draws_zero_def js_sub_def js_mul_def
        double_eval)
  have w1: "weeklyChange (fst (loadDashboardData draws_half clock_fixed en_US_short (Some 2)
       (Some 0) (Some 3) caller_store)) = 0"
    by (simp add: loadDashboardData_result dashboard_of_def draws_half_def js_sub_def js_mul_def
        double_eval)
  have d0: "weekdays (fst (chartData utc_dates new_year 0 caller_store))
       = [''Thu'', ''Fri'', ''Sat'', ''Sun'', ''Mon'', ''Tue'', ''Wed'']"
    by (simp add: chartData_result caller_rows weekdays_def chart_of_def day_of_def utc_dates_def
        en_US_weekday_def new_year_def)
  have d1: "weekdays (fst (chartData utc_dates next_day 0 caller_store))
       = [''Fri'', ''Sat'', ''Sun'', ''Mon'', ''Tue'', ''Wed'', ''Thu'']"
    by (simp add: chartData_result caller_rows weekdays_def chart_of_def day_of_def utc_dates_def
        en_US_weekday_def new_year_def next_day_def)
  from w0 w1 have "fst (loadDashboardData draws_zero clock_fixed en_US_short (Some 2) (Some 0)
         (Some 3) caller_store)
       \<noteq> fst (loadDashboardData draws_half clock_fixed en_US_short (Some 2) (Some 0) (Some 3)
             caller_store)"
    by auto
  moreover from d0 d1 have "fst (chartData utc_dates new_year 0 caller_store)
       \<noteq> fst (chartData utc_dates next_day 0 caller_store)"
    by auto
  ultimately show ?thesis
    using w0 w1 d0 d1 by blast
qed

section \<open>The gate of the search query\<close>

text \<open>
  The gate is open whenever a sort field is set, and the sort select offers no empty
  choice.
\<close>

lemma enabled_by_sortBy:
  "sortBy filters \<noteq> [] \<Longrightarrow> sortBy filters \<noteq> ''all'' \<Longrightarrow> enabled filters"
  by (simp add: enabled_def Object_values_def Object_entries_def)

text \<open>
  Claim C9 says that with every filter at its default no filter is active and no search
  query is issued.  The code at the default filters: the count of active filters is 0,
  and the query is enabled all the same, because the gate also sees the default sort
  field \<^verbatim>\<open>received_at\<close> and sort order \<^verbatim>\<open>desc\<close>, which the count leaves out.
\<close>

theorem default_filters_enable_query:
  "activeFiltersCount initialFilters = 0 \<and> enabled initialFilters"
  by (simp add: activeFiltersCount_def enabled_def Object_values_def Object_entries_def
      initialFilters_def)

section \<open>Sentiment badge\<close>

text \<open>
  Claim C10.  The sentiment badge of the feedback table shows Not Rated when the rating
  is null or 0, Negative for a rating above 0 and below 2.5, Neutral for a rating from
  2.5 up to but not including 4, and Positive for a rating of 4 or more.
\<close>

theorem getSentimentBadge_bands:
  "getSentimentBadge None = NotRated
   \<and> getSentimentBadge (Some 0) = NotRated
   \<and> (0 < r \<and> r < 2.5 \<longrightarrow> getSentimentBadge (Some r) = Negative)
   \<and> (2.5 \<le> r \<and> r < 4 \<longrightarrow> getSentimentBadge (Some r) = Neutral)
   \<and> (4 \<le> r \<longrightarrow> getSentimentBadge (Some r) = Positive)"
  by (simp add: getSentimentBadge_def truthy_def Number_def)

text \<open>The badge at the ratings 1, 3 and 5.\<close>

theorem getSentimentBadge_bands_witness:
  "(0::real) < 1 \<and> (1::real) < 2.5 \<and> getSentimentBadge (Some 1) = Negative
   \<and> (2.5::real) \<le> 3 \<and> (3::real) < 4 \<and> getSentimentBadge (Some 3) = Neutral
   \<and> (4::real) \<le> 5 \<and> getSentimentBadge (Some 5) = Positive"
  using getSentimentBadge_bands [of 1] getSentimentBadge_bands [of 3]
    getSentimentBadge_bands [of 5]
  by simp

end
